theory Spec2Isabelle
  imports Complex_Main "HOL-Library.AList" "HOL-Library.Char_ord" "HOL-Library.List_Lexorder"
    "HOL-Library.Product_Lexorder"
begin

section \<open>Python values used by \<open>tools/sync_course_structure.py\<close>\<close>

text \<open>
  Directory and file names are ASCII strings (\<open>string\<close>). Text that the script only
  copies into its report (module titles, status labels, glyphs) is a list of Unicode
  code points, since it holds Cyrillic letters and emoji.
\<close>

type_synonym ustring = "nat list"

datatype error = ValueError | ZeroDivisionError

subsection \<open>Floats\<close>

text \<open>
  A Python \<open>float\<close> is an IEEE 754 binary64 number. Every finite float is a rational,
  and each arithmetic operation returns the exact result rounded to the nearest number
  with a 53 bit significand, ties to the even significand. The exponent range is not
  modelled: the script's floats are 0 or lie between \<open>1/20\<close> and a small multiple of
  the number of lessons.
\<close>

function exp_ge1 :: "rat \<Rightarrow> nat" where
  "exp_ge1 x = (if x < 2 then 0 else Suc (exp_ge1 (x / 2)))"
  by pat_completeness auto
termination
proof (relation "measure (\<lambda>x. nat \<lfloor>x\<rfloor>)")
  show "wf (measure (\<lambda>x::rat. nat \<lfloor>x\<rfloor>))" by simp
next
  fix x :: rat
  assume "\<not> x < 2"
  then have "x / 2 \<le> x - 1" and x1: "1 \<le> x" by simp_all
  then have "\<lfloor>x / 2\<rfloor> \<le> \<lfloor>x - 1\<rfloor>" by (intro floor_mono)
  moreover have "1 \<le> \<lfloor>x\<rfloor>" using x1 by (simp add: le_floor_iff)
  ultimately have "nat \<lfloor>x / 2\<rfloor> < nat \<lfloor>x\<rfloor>" by simp
  then show "(x / 2, x) \<in> measure (\<lambda>x. nat \<lfloor>x\<rfloor>)" by (simp only: in_measure)
qed

function exp_lt1 :: "rat \<Rightarrow> nat" where
  "exp_lt1 x = (if x \<le> 0 \<or> 1 \<le> x then 0 else Suc (exp_lt1 (2 * x)))"
  by pat_completeness auto
termination
proof (relation "measure (\<lambda>x. nat \<lfloor>1 / x\<rfloor>)")
  show "wf (measure (\<lambda>x::rat. nat \<lfloor>1 / x\<rfloor>))" by simp
next
  fix x :: rat
  assume "\<not> (x \<le> 0 \<or> 1 \<le> x)"
  then have x: "0 < x" "x < 1" by simp_all
  define y where "y = 1 / x"
  have y: "1 < y" using x by (simp add: y_def)
  have half: "1 / (2 * x) = y / 2" by (simp add: y_def)
  have y1: "1 \<le> \<lfloor>y\<rfloor>" using y by (simp add: le_floor_iff)
  have "\<lfloor>y / 2\<rfloor> < \<lfloor>y\<rfloor>"
  proof (cases "y < 2")
    case True
    then have "y / 2 < 1" by simp
    then have "\<lfloor>y / 2\<rfloor> < 1" by (simp only: floor_less_iff of_int_1)
    with y1 show ?thesis by linarith
  next
    case False
    then have "y / 2 \<le> y - 1" by simp
    then have "\<lfloor>y / 2\<rfloor> \<le> \<lfloor>y - 1\<rfloor>" by (rule floor_mono)
    then show ?thesis by simp
  qed
  with y1 have "nat \<lfloor>y / 2\<rfloor> < nat \<lfloor>y\<rfloor>" by simp
  then show "(2 * x, x) \<in> measure (\<lambda>x. nat \<lfloor>1 / x\<rfloor>)"
    by (simp only: in_measure half y_def [symmetric])
qed

definition binary_exponent :: "rat \<Rightarrow> int" where
  \<comment> \<open>for \<open>0 < x\<close>: the \<open>e\<close> with \<open>2 ^ e \<le> x < 2 ^ (e + 1)\<close>\<close>
  "binary_exponent x = (if 1 \<le> x then int (exp_ge1 x) else - int (exp_lt1 x))"

definition pow2 :: "int \<Rightarrow> rat" where
  "pow2 e = (if 0 \<le> e then 2 ^ nat e else 1 / 2 ^ nat (- e))"

definition round_half_even :: "rat \<Rightarrow> int" where
  "round_half_even y =
     (let f = \<lfloor>y\<rfloor>; d = y - of_int f
      in if d < 1 / 2 then f
         else if 1 / 2 < d then f + 1
         else if even f then f else f + 1)"

definition round_double :: "rat \<Rightarrow> rat" where
  "round_double x =
     (if x = 0 then 0
      else let a = \<bar>x\<bar>;
               e = binary_exponent a;
               m = round_half_even (a * pow2 (52 - e));
               r = of_int m * pow2 (e - 52)
           in if x < 0 then - r else r)"

definition float_of_int :: "int \<Rightarrow> rat" where
  "float_of_int n = round_double (of_int n)"

definition int_truediv :: "int \<Rightarrow> int \<Rightarrow> rat" where
  \<comment> \<open>the value of \<open>a / b\<close> on two ints when \<open>b \<noteq> 0\<close>: the exact quotient, correctly
      rounded. It is used below with the divisor \<open>total_weight\<close>, the sum of a literal
      table (100), and inside \<open>py_truediv\<close>, which tests the divisor first.\<close>
  "int_truediv a b = round_double (of_int a / of_int b)"

definition py_truediv :: "int \<Rightarrow> int \<Rightarrow> error + rat" where
  "py_truediv a b = (if b = 0 then Inl ZeroDivisionError else Inr (int_truediv a b))"

definition float_mul_int :: "rat \<Rightarrow> int \<Rightarrow> rat" where
  \<comment> \<open>\<open>x * n\<close> with \<open>x\<close> a float and \<open>n\<close> an int: the int is converted first\<close>
  "float_mul_int x n = round_double (x * float_of_int n)"

definition float_add :: "rat \<Rightarrow> rat \<Rightarrow> rat" where
  "float_add x y = round_double (x + y)"

definition float_div_int :: "rat \<Rightarrow> int \<Rightarrow> error + rat" where
  \<comment> \<open>\<open>x / n\<close> with \<open>x\<close> the result of \<open>sum\<close> and \<open>n\<close> an int: a zero divisor raises
      \<open>ZeroDivisionError\<close>, otherwise the int is converted and the quotient rounded\<close>
  "float_div_int x n =
     (if n = 0 then Inl ZeroDivisionError else Inr (round_double (x / float_of_int n)))"

definition float_sum :: "rat list \<Rightarrow> rat" where
  \<comment> \<open>\<open>sum(xs)\<close> over floats: the start value 0, then one rounded addition for each
      item, from the left. (CPython 3.12 and later add a compensation term to the
      running sum; that variant is not modelled.)\<close>
  "float_sum xs = foldl float_add 0 xs"

section \<open>\<open>PatternStatus\<close>\<close>

record PatternStatus =
  module_number :: int
  "module_name" :: ustring
  lesson_number :: int
  lesson_name :: string
  pattern_name :: string
  directory :: "string list"
  has_readme :: bool
  has_cmakelists :: bool
  has_security_analysis :: bool
  has_security_poster :: bool
  has_vulnerabilities :: bool
  has_exploits :: bool
  has_secure_alternatives :: bool
  has_cpp23_comparison :: bool
  main_cpp_files :: "string list"
  other_files :: "string list"

definition weights :: "(string \<times> int) list" where
  "weights =
     [(''has_readme'', 10),
      (''has_cmakelists'', 10),
      (''has_security_analysis'', 15),
      (''has_security_poster'', 15),
      (''has_vulnerabilities'', 15),
      (''has_exploits'', 10),
      (''has_secure_alternatives'', 15),
      (''has_cpp23_comparison'', 10)]"

definition getattr :: "PatternStatus \<Rightarrow> string \<Rightarrow> bool" where
  \<comment> \<open>\<open>getattr(self, attr)\<close> for the keys of \<open>weights\<close>\<close>
  "getattr self attr =
     (if attr = ''has_readme'' then has_readme self
      else if attr = ''has_cmakelists'' then has_cmakelists self
      else if attr = ''has_security_analysis'' then has_security_analysis self
      else if attr = ''has_security_poster'' then has_security_poster self
      else if attr = ''has_vulnerabilities'' then has_vulnerabilities self
      else if attr = ''has_exploits'' then has_exploits self
      else if attr = ''has_secure_alternatives'' then has_secure_alternatives self
      else if attr = ''has_cpp23_comparison'' then has_cpp23_comparison self
      else False)"

definition total_weight :: int where
  "total_weight = sum_list (map snd weights)"

definition achieved_weight :: "PatternStatus \<Rightarrow> int" where
  "achieved_weight self = sum_list (map snd (filter (\<lambda>(attr, weight). getattr self attr) weights))"

definition completion_percentage :: "PatternStatus \<Rightarrow> rat" where
  \<comment> \<open>\<open>(achieved_weight / total_weight) * 100\<close>; \<open>total_weight\<close> is the constant 100\<close>
  "completion_percentage self = float_mul_int (int_truediv (achieved_weight self) total_weight) 100"

definition status_emoji_of :: "rat \<Rightarrow> ustring" where
  "status_emoji_of completion =
     (if completion \<ge> 90 then [9989]
      else if completion \<ge> 70 then [128994]
      else if completion \<ge> 50 then [128993]
      else if completion \<ge> 30 then [128992]
      else [128308])"

definition get_status_emoji :: "PatternStatus \<Rightarrow> ustring" where
  "get_status_emoji self = status_emoji_of (completion_percentage self)"

definition status_text_of :: "rat \<Rightarrow> ustring" where
  "status_text_of completion =
     (if completion \<ge> 90 then
        [1055, 1054, 1051, 1053, 1054, 1057, 1058, 1068, 1070, 32,
         1056, 1045, 1040, 1051, 1048, 1047, 1054, 1042, 1040, 1053]
      else if completion \<ge> 70 then
        [1055, 1056, 1040, 1050, 1058, 1048, 1063, 1045, 1057, 1050, 1048, 32,
         1047, 1040, 1042, 1045, 1056, 1064, 1025, 1053]
      else if completion \<ge> 50 then
        [1063, 1040, 1057, 1058, 1048, 1063, 1053, 1054, 32,
         1056, 1045, 1040, 1051, 1048, 1047, 1054, 1042, 1040, 1053]
      else if completion \<ge> 30 then
        [1041, 1040, 1047, 1054, 1042, 1040, 1071, 32,
         1057, 1058, 1056, 1059, 1050, 1058, 1059, 1056, 1040]
      else
        [1052, 1048, 1053, 1048, 1052, 1040, 1051, 1068, 1053, 1040, 1071, 32,
         1057, 1058, 1056, 1059, 1050, 1058, 1059, 1056, 1040])"

definition get_status_text :: "PatternStatus \<Rightarrow> ustring" where
  "get_status_text self = status_text_of (completion_percentage self)"

record ModuleStats =
  ms_module_number :: int
  ms_module_name :: ustring
  patterns :: "PatternStatus list"

definition total_patterns :: "ModuleStats \<Rightarrow> nat" where
  "total_patterns self = length (patterns self)"

definition average_completion :: "ModuleStats \<Rightarrow> error + rat" where
  "average_completion self =
     (if patterns self = [] then Inr 0
      else float_div_int (float_sum (map completion_percentage (patterns self)))
             (int (length (patterns self))))"

section \<open>Strings\<close>

fun split :: "char \<Rightarrow> string \<Rightarrow> string list" where
  \<comment> \<open>\<open>s.split(sep)\<close> for a one-character separator\<close>
  "split sep [] = [[]]"
| "split sep (c # cs) =
     (if c = sep then [] # split sep cs
      else (case split sep cs of [] \<Rightarrow> [[c]] | w # ws \<Rightarrow> (c # w) # ws))"

fun join :: "'a list \<Rightarrow> 'a list list \<Rightarrow> 'a list" where
  \<comment> \<open>\<open>sep.join(parts)\<close>\<close>
  "join sep [] = []"
| "join sep [x] = x"
| "join sep (x # y # ys) = x @ sep @ join sep (y # ys)"

definition replace :: "char \<Rightarrow> char \<Rightarrow> string \<Rightarrow> string" where
  "replace old new s = map (\<lambda>c. if c = old then new else c) s"

definition is_lower :: "char \<Rightarrow> bool" where
  "is_lower c = (CHR ''a'' \<le> c \<and> c \<le> CHR ''z'')"

definition is_upper :: "char \<Rightarrow> bool" where
  "is_upper c = (CHR ''A'' \<le> c \<and> c \<le> CHR ''Z'')"

definition to_upper :: "char \<Rightarrow> char" where
  "to_upper c = (if is_lower c then char_of (of_char c - (32::nat)) else c)"

definition to_lower :: "char \<Rightarrow> char" where
  "to_lower c = (if is_upper c then char_of (of_char c + (32::nat)) else c)"

definition upper :: "string \<Rightarrow> string" where
  "upper s = map to_upper s"

fun title_from :: "bool \<Rightarrow> string \<Rightarrow> string" where
  \<comment> \<open>the flag is \<open>previous_is_cased\<close> of \<open>str.title\<close>\<close>
  "title_from prev [] = []"
| "title_from prev (c # cs) =
     (if is_lower c then (if prev then c else to_upper c) # title_from True cs
      else if is_upper c then (if prev then to_lower c else c) # title_from True cs
      else c # title_from False cs)"

definition title :: "string \<Rightarrow> string" where
  "title s = title_from False s"

definition is_int_space :: "char \<Rightarrow> bool" where
  \<comment> \<open>the ASCII characters that \<open>int\<close> skips before and after the number: tab, line
      feed, vertical tab, form feed, carriage return and space. The separators
      \<open>0x1C\<close> to \<open>0x1F\<close>, which \<open>str.isspace\<close> and \<open>str.strip\<close> also take for
      whitespace, are not skipped: \<open>int\<close> raises on them.\<close>
  "is_int_space c = ((of_char c :: nat) \<in> {9, 10, 11, 12, 13, 32})"

definition strip_int_space :: "string \<Rightarrow> string" where
  "strip_int_space s = rev (dropWhile is_int_space (rev (dropWhile is_int_space s)))"

definition is_digit :: "char \<Rightarrow> bool" where
  "is_digit c = (CHR ''0'' \<le> c \<and> c \<le> CHR ''9'')"

definition digit_value :: "char \<Rightarrow> int" where
  "digit_value c = int (of_char c) - 48"

definition digits_value :: "string \<Rightarrow> int" where
  "digits_value ds = foldl (\<lambda>acc c. 10 * acc + digit_value c) 0 ds"

definition parse_digits :: "string \<Rightarrow> error + int" where
  "parse_digits ds =
     (if ds \<noteq> [] \<and> list_all is_digit ds then Inr (digits_value ds) else Inl ValueError)"

definition py_int :: "string \<Rightarrow> error + int" where
  \<comment> \<open>\<open>int(s)\<close> on an ASCII string: surrounding whitespace, an optional sign, decimal
      digits. The underscores that \<open>int\<close> allows between digits cannot occur in a
      segment of \<open>name.split('_')\<close> and are not accepted here.\<close>
  "py_int s =
     (case strip_int_space s of
        [] \<Rightarrow> Inl ValueError
      | c # cs \<Rightarrow>
          if c = CHR ''-'' then map_sum id uminus (parse_digits cs)
          else if c = CHR ''+'' then parse_digits cs
          else parse_digits (c # cs))"

fun contains :: "string \<Rightarrow> string \<Rightarrow> bool" where
  \<comment> \<open>\<open>sub in s\<close>\<close>
  "contains sub [] = (sub = [])"
| "contains sub (c # cs) = (take (length sub) (c # cs) = sub \<or> contains sub cs)"

fun glob_match :: "string \<Rightarrow> string \<Rightarrow> bool" where
  \<comment> \<open>a file name against a one-segment glob pattern in which \<open>*\<close> is the only
      wildcard, as in every pattern that the script iterates\<close>
  "glob_match [] s = (s = [])"
| "glob_match (p # ps) [] = (p = CHR ''*'' \<and> glob_match ps [])"
| "glob_match (p # ps) (c # cs) =
     (if p = CHR ''*'' then glob_match ps (c # cs) \<or> glob_match (p # ps) cs
      else p = c \<and> glob_match ps cs)"

section \<open>The directory tree\<close>

text \<open>
  A directory lists its entries by name, in the order in which the operating system
  enumerates them; names in one directory are distinct.
\<close>

datatype node = File | Dir "(string \<times> node) list"

fun entries :: "node \<Rightarrow> (string \<times> node) list" where
  "entries File = []"
| "entries (Dir es) = es"

fun is_dir :: "node \<Rightarrow> bool" where
  "is_dir File = False"
| "is_dir (Dir es) = True"

definition exists_in :: "node \<Rightarrow> string \<Rightarrow> bool" where
  \<comment> \<open>\<open>(d / name).exists()\<close>\<close>
  "exists_in d name = (map_of (entries d) name \<noteq> None)"

definition glob :: "node \<Rightarrow> string \<Rightarrow> string list" where
  \<comment> \<open>the names that \<open>d.glob(pattern)\<close> yields when it is iterated\<close>
  "glob d pattern = filter (glob_match pattern) (map fst (entries d))"

definition py_any :: "'a list \<Rightarrow> bool" where
  \<comment> \<open>\<open>any(it)\<close> over an iterator of paths: a path object is always true\<close>
  "py_any items = (items \<noteq> [])"

definition generator_truthy :: "'a list \<Rightarrow> bool" where
  \<comment> \<open>the truth value of the generator object that \<open>glob\<close> returns: a generator
      defines neither \<open>__bool__\<close> nor \<open>__len__\<close>, so it is true whatever it would yield\<close>
  "generator_truthy g = True"

section \<open>\<open>CourseStructureScanner\<close>\<close>

definition MODULES :: "(string \<times> int \<times> ustring) list" where
  "MODULES =
     [(''01-basics'', 1, [1054, 1089, 1085, 1086, 1074, 1099, 32, 67, 43, 43]),
      (''02-principles'', 2,
         [1055, 1088, 1080, 1085, 1094, 1080, 1087, 1099, 32, 1087, 1088, 1086, 1077, 1082,
          1090, 1080, 1088, 1086, 1074, 1072, 1085, 1080, 1103]),
      (''03-creational'', 3,
         [1055, 1086, 1088, 1086, 1078, 1076, 1072, 1102, 1097, 1080, 1077, 32, 1087, 1072,
          1090, 1090, 1077, 1088, 1085, 1099]),
      (''04-structural'', 4,
         [1057, 1090, 1088, 1091, 1082, 1090, 1091, 1088, 1085, 1099, 1077, 32, 1087, 1072,
          1090, 1090, 1077, 1088, 1085, 1099]),
      (''05-behavioral'', 5,
         [1055, 1086, 1074, 1077, 1076, 1077, 1085, 1095, 1077, 1089, 1082, 1080, 1077, 32,
          1087, 1072, 1090, 1090, 1077, 1088, 1085, 1099]),
      (''06-modern-cpp'', 6,
         [1057, 1086, 1074, 1088, 1077, 1084, 1077, 1085, 1085, 1099, 1081, 32, 67, 43, 43]),
      (''07-concurrency'', 7,
         [1055, 1072, 1090, 1090, 1077, 1088, 1085, 1099, 32, 1084, 1085, 1086, 1075, 1086,
          1087, 1086, 1090, 1086, 1095, 1085, 1086, 1089, 1090, 1080]),
      (''08-high-load'', 8,
         [1055, 1072, 1090, 1090, 1077, 1088, 1085, 1099, 32, 1074, 1099, 1089, 1086, 1082,
          1086, 1085, 1072, 1075, 1088, 1091, 1078, 1077, 1085, 1085, 1099, 1093, 32, 1089,
          1080, 1089, 1090, 1077, 1084]),
      (''09-performance'', 9,
         [1055, 1072, 1090, 1090, 1077, 1088, 1085, 1099, 32, 1087, 1088, 1086, 1080, 1079,
          1074, 1086, 1076, 1080, 1090, 1077, 1083, 1100, 1085, 1086, 1089, 1090, 1080])]"

text \<open>What \<open>scan\<close> prints, one value for each \<open>print\<close> call.\<close>

datatype message =
  ScanStarted
| ModuleNotFound string
| ScanningModule int ustring
| ScanFinished nat

text \<open>
  The scanner object, with the lines printed so far as a further field. \<open>self_modules\<close>
  is the dict \<open>self.modules\<close> in insertion order.
\<close>

record CourseStructureScanner =
  project_root :: node
  self_patterns :: "PatternStatus list"
  self_modules :: "(int \<times> ModuleStats) list"
  printed :: "message list"

definition init_scanner :: "node \<Rightarrow> CourseStructureScanner" where
  "init_scanner tree =
     \<lparr>project_root = tree, self_patterns = [], self_modules = [], printed = []\<rparr>"

definition scan_lesson ::
  "int \<Rightarrow> ustring \<Rightarrow> string \<Rightarrow> string \<times> node \<Rightarrow> error + PatternStatus option" where
  \<comment> \<open>\<open>_scan_lesson\<close>; the lesson directory is given by its name and its content, the
      module directory by its name\<close>
  "scan_lesson module_num module_nm module_dir lesson =
     (let dir_name = fst lesson;
          lesson_dir = snd lesson;
          parts = split CHR ''_'' dir_name
      in if length parts < 3 then Inr None
         else case py_int (parts ! 1) of
           Inl e \<Rightarrow> Inl e
         | Inr lesson_num \<Rightarrow>
             let pattern_nm = (if length parts > 3 then join ''_'' (drop 3 parts) else parts ! 2);
                 lesson_nm = title (replace CHR ''_'' CHR '' '' pattern_nm);
                 poster_patterns =
                   [''*SECURITY_POSTER.md'', upper pattern_nm @ ''_SECURITY_POSTER.md''];
                 cpp23_patterns = [''*_cpp23_comparison.cpp'', ''*_cpp23_*.cpp'']
             in Inr (Some
                  \<lparr>module_number = module_num,
                   module_name = module_nm,
                   lesson_number = lesson_num,
                   lesson_name = lesson_nm,
                   pattern_name = pattern_nm,
                   directory = [module_dir, dir_name],
                   has_readme = exists_in lesson_dir ''README.md'',
                   has_cmakelists = exists_in lesson_dir ''CMakeLists.txt'',
                   has_security_analysis = exists_in lesson_dir ''SECURITY_ANALYSIS.md'',
                   has_security_poster =
                     list_ex (\<lambda>pattern. generator_truthy (glob lesson_dir pattern)) poster_patterns,
                   has_vulnerabilities = py_any (glob lesson_dir ''*_vulnerabilities.cpp''),
                   has_exploits =
                     (case map_of (entries lesson_dir) ''exploits'' of
                        None \<Rightarrow> False
                      | Some exploits_dir \<Rightarrow> py_any (glob exploits_dir ''*.cpp'')),
                   has_secure_alternatives = py_any (glob lesson_dir ''secure_*_alternatives.cpp''),
                   has_cpp23_comparison =
                     list_ex (\<lambda>pattern. generator_truthy (glob lesson_dir pattern)) cpp23_patterns,
                   main_cpp_files =
                     filter (\<lambda>name. \<not> contains ''vulnerabilities'' name
                                    \<and> \<not> contains ''secure_'' name
                                    \<and> \<not> contains ''cpp23'' name)
                       (glob lesson_dir ''*.cpp''),
                   other_files =
                     filter (\<lambda>name. name \<notin> set [''README.md'', ''SECURITY_ANALYSIS.md'']
                                    \<and> \<not> contains ''SECURITY_POSTER'' name)
                       (glob lesson_dir ''*.md'')\<rparr>))"

fun scan_lessons ::
  "int \<Rightarrow> ustring \<Rightarrow> string \<Rightarrow> (string \<times> node) list \<Rightarrow>
   CourseStructureScanner \<times> ModuleStats \<Rightarrow> error + CourseStructureScanner \<times> ModuleStats" where
  \<comment> \<open>the loop over the lesson directories of one module\<close>
  "scan_lessons module_num module_nm module_dir [] st = Inr st"
| "scan_lessons module_num module_nm module_dir (lesson # rest) st =
     (if \<not> is_dir (snd lesson) then scan_lessons module_num module_nm module_dir rest st
      else case scan_lesson module_num module_nm module_dir lesson of
        Inl e \<Rightarrow> Inl e
      | Inr None \<Rightarrow> scan_lessons module_num module_nm module_dir rest st
      | Inr (Some pattern_status) \<Rightarrow>
          scan_lessons module_num module_nm module_dir rest
            ((fst st)\<lparr>self_patterns := self_patterns (fst st) @ [pattern_status]\<rparr>,
             (snd st)\<lparr>patterns := patterns (snd st) @ [pattern_status]\<rparr>))"

definition lesson_dirs :: "node \<Rightarrow> (string \<times> node) list" where
  \<comment> \<open>\<open>sorted(module_path.glob('lesson_*'))\<close>\<close>
  "lesson_dirs module_path =
     sort_key fst (filter (\<lambda>e. glob_match ''lesson_*'' (fst e)) (entries module_path))"

fun scan_modules ::
  "(string \<times> int \<times> ustring) list \<Rightarrow> CourseStructureScanner \<Rightarrow> error + CourseStructureScanner" where
  \<comment> \<open>the loop over \<open>MODULES.items()\<close>\<close>
  "scan_modules [] self = Inr self"
| "scan_modules ((module_dir, module_num, module_nm) # rest) self =
     (case map_of (entries (project_root self)) module_dir of
        None \<Rightarrow>
          scan_modules rest (self\<lparr>printed := printed self @ [ModuleNotFound module_dir]\<rparr>)
      | Some module_path \<Rightarrow>
          (case scan_lessons module_num module_nm module_dir (lesson_dirs module_path)
                  (self\<lparr>printed := printed self @ [ScanningModule module_num module_nm]\<rparr>,
                   \<lparr>ms_module_number = module_num, ms_module_name = module_nm, patterns = []\<rparr>) of
             Inl e \<Rightarrow> Inl e
           | Inr (self', module_stats) \<Rightarrow>
               scan_modules rest
                 (if patterns module_stats \<noteq> []
                  then self'\<lparr>self_modules := AList.update module_num module_stats (self_modules self')\<rparr>
                  else self')))"

definition scan :: "CourseStructureScanner \<Rightarrow> error + CourseStructureScanner" where
  "scan self =
     (case scan_modules MODULES (self\<lparr>printed := printed self @ [ScanStarted]\<rparr>) of
        Inl e \<Rightarrow> Inl e
      | Inr self' \<Rightarrow>
          Inr (self'\<lparr>printed := printed self' @ [ScanFinished (length (self_patterns self'))]\<rparr>))"

subsection \<open>Statistics\<close>

record OverallStats =
  stats_total_patterns :: nat
  stats_average_completion :: rat
  stats_files :: "(string \<times> nat) list"
  stats_modules :: nat

definition count_where :: "(PatternStatus \<Rightarrow> bool) \<Rightarrow> PatternStatus list \<Rightarrow> nat" where
  \<comment> \<open>\<open>sum(1 for p in ps if flag(p))\<close>\<close>
  "count_where flag ps = length (filter flag ps)"

definition get_overall_stats :: "CourseStructureScanner \<Rightarrow> error + OverallStats" where
  \<comment> \<open>the conditional expression tests \<open>total_patterns\<close> before it divides\<close>
  "get_overall_stats self =
     (let total_patterns = length (self_patterns self)
      in case (if total_patterns \<noteq> 0
               then float_div_int (float_sum (map completion_percentage (self_patterns self)))
                      (int total_patterns)
               else Inr 0) of
           Inl e \<Rightarrow> Inl e
         | Inr avg_completion \<Rightarrow>
             Inr \<lparr>stats_total_patterns = total_patterns,
                  stats_average_completion = avg_completion,
                  stats_files =
                    [(''readme'', count_where has_readme (self_patterns self)),
                     (''cmakelists'', count_where has_cmakelists (self_patterns self)),
                     (''security_analysis'', count_where has_security_analysis (self_patterns self)),
                     (''security_poster'', count_where has_security_poster (self_patterns self)),
                     (''vulnerabilities'', count_where has_vulnerabilities (self_patterns self)),
                     (''exploits'', count_where has_exploits (self_patterns self)),
                     (''secure_alternatives'',
                        count_where has_secure_alternatives (self_patterns self)),
                     (''cpp23_comparison'', count_where has_cpp23_comparison (self_patterns self))],
                  stats_modules = length (self_modules self)\<rparr>)"

definition coverage_emoji :: "rat \<Rightarrow> ustring" where
  "coverage_emoji percentage =
     (if percentage \<ge> 90 then [9989] else if percentage \<ge> 70 then [128993] else [128308])"

definition coverage_percentage :: "nat \<Rightarrow> nat \<Rightarrow> error + rat" where
  \<comment> \<open>\<open>(count / stats['total_patterns']) * 100\<close>\<close>
  "coverage_percentage cnt total_count =
     (case py_truediv (int cnt) (int total_count) of
        Inl e \<Rightarrow> Inl e
      | Inr q \<Rightarrow> Inr (float_mul_int q 100))"

subsection \<open>The narrative report\<close>

text \<open>
  The report is the list \<open>lines\<close> of \<open>generate_markdown\<close>. Each \<open>lines.append\<close> is one
  value that names the line and carries the values interpolated into it; fixed wording,
  number formatting and the two time stamps are not spelled out.
\<close>

datatype line =
  Blank
| Rule
| Title
| GeneratedAt
| GeneratorName
| StatsHeading
| TotalPatterns nat
| AverageCompletion rat
| ModuleCount nat
| CoverageHeading
| CoverageTableHead
| CoverageTableRule
| CoverageRow string nat nat ustring rat
| ModulesHeading
| ModuleHeading int ustring
| ModuleSummary nat rat
| LessonTableHead
| LessonTableRule
| LessonRow int string ustring ustring rat ustring
| DetailHeading int int string ustring rat
| StructureLabel
| SecurityLabel
| ModernLabel
| ExtraLabel
| Check string bool
| Found string
| LegendLine nat
| Footer

fun coverage_rows :: "nat \<Rightarrow> (string \<times> nat) list \<Rightarrow> error + line list" where
  \<comment> \<open>the loop over \<open>stats['files'].items()\<close>\<close>
  "coverage_rows total_count [] = Inr []"
| "coverage_rows total_count ((component, cnt) # rest) =
     (case coverage_percentage cnt total_count of
        Inl e \<Rightarrow> Inl e
      | Inr percentage \<Rightarrow>
          (case coverage_rows total_count rest of
             Inl e \<Rightarrow> Inl e
           | Inr rows \<Rightarrow>
               Inr (CoverageRow (title (replace CHR ''_'' CHR '' '' component)) cnt total_count
                      (coverage_emoji percentage) percentage # rows)))"

definition components :: "PatternStatus \<Rightarrow> ustring list" where
  \<comment> \<open>the list \<open>components\<close> that the lesson table builds for one pattern\<close>
  "components pattern =
     (if has_readme pattern then [[128214]] else [])
     @ (if has_security_analysis pattern then [[128274]] else [])
     @ (if has_security_poster pattern then [[128203]] else [])
     @ (if has_vulnerabilities pattern then [[9888, 65039]] else [])
     @ (if has_exploits pattern then [[128163]] else [])
     @ (if has_secure_alternatives pattern then [[9989]] else [])
     @ (if has_cpp23_comparison pattern then [[128640]] else [])"

definition components_str :: "PatternStatus \<Rightarrow> ustring" where
  "components_str pattern =
     (if components pattern \<noteq> [] then join [32] (components pattern) else [8212])"

definition lesson_row :: "PatternStatus \<Rightarrow> line" where
  "lesson_row pattern =
     LessonRow (lesson_number pattern) (lesson_name pattern) (get_status_emoji pattern)
       (get_status_text pattern) (completion_percentage pattern) (components_str pattern)"

definition add_pattern_details :: "PatternStatus \<Rightarrow> line list" where
  \<comment> \<open>the lines that \<open>_add_pattern_details\<close> appends\<close>
  "add_pattern_details pattern =
     [DetailHeading (module_number pattern) (lesson_number pattern) (lesson_name pattern)
        (get_status_emoji pattern) (completion_percentage pattern),
      Blank,
      StructureLabel,
      Check ''README.md'' (has_readme pattern),
      Check ''CMakeLists.txt'' (has_cmakelists pattern)]
     @ map Found (sort (main_cpp_files pattern))
     @ [Blank,
        SecurityLabel,
        Check ''SECURITY_ANALYSIS.md'' (has_security_analysis pattern),
        Check ''Security Poster'' (has_security_poster pattern),
        Check ''Vulnerabilities'' (has_vulnerabilities pattern),
        Check ''Exploits'' (has_exploits pattern),
        Check ''Secure Alternatives'' (has_secure_alternatives pattern),
        Blank,
        ModernLabel,
        Check ''C++23 Comparison'' (has_cpp23_comparison pattern)]
     @ (if other_files pattern \<noteq> []
        then [Blank, ExtraLabel] @ map Found (sort (other_files pattern))
        else [])
     @ [Blank]"

definition module_section :: "int \<Rightarrow> ModuleStats \<Rightarrow> error + line list" where
  \<comment> \<open>one round of the loop over the modules\<close>
  "module_section module_num module_stats =
     (case average_completion module_stats of
        Inl e \<Rightarrow> Inl e
      | Inr avg_comp \<Rightarrow>
          Inr ([ModuleHeading module_num (ms_module_name module_stats),
                Blank,
                ModuleSummary (total_patterns module_stats) avg_comp,
                Blank,
                LessonTableHead,
                LessonTableRule]
               @ map lesson_row (patterns module_stats)
               @ [Blank]
               @ concat (map add_pattern_details (patterns module_stats))
               @ [Rule, Blank]))"

fun module_sections_of :: "(int \<times> ModuleStats) list \<Rightarrow> int list \<Rightarrow> error + line list" where
  \<comment> \<open>the loop \<open>for module_num in ...\<close> over the given keys of the dict\<close>
  "module_sections_of modules [] = Inr []"
| "module_sections_of modules (module_num # rest) =
     (case map_of modules module_num of
        None \<Rightarrow> module_sections_of modules rest
      | Some module_stats \<Rightarrow>
          (case module_section module_num module_stats of
             Inl e \<Rightarrow> Inl e
           | Inr section_lines \<Rightarrow>
               (case module_sections_of modules rest of
                  Inl e \<Rightarrow> Inl e
                | Inr rest_lines \<Rightarrow> Inr (section_lines @ rest_lines))))"

definition module_sections :: "CourseStructureScanner \<Rightarrow> error + line list" where
  \<comment> \<open>the loop over \<open>sorted(self.modules.keys())\<close>\<close>
  "module_sections self = module_sections_of (self_modules self) (sort (map fst (self_modules self)))"

definition legend :: "line list" where
  "legend =
     [LegendLine 0, Blank, LegendLine 1, LegendLine 2, LegendLine 3, LegendLine 4, LegendLine 5,
      LegendLine 6, LegendLine 7, LegendLine 8, Blank, LegendLine 9, LegendLine 10, LegendLine 11,
      LegendLine 12, LegendLine 13, LegendLine 14, Blank, Rule, Blank, Footer]"

definition generate_markdown :: "CourseStructureScanner \<Rightarrow> error + line list" where
  "generate_markdown self =
     (case get_overall_stats self of
        Inl e \<Rightarrow> Inl e
      | Inr stats \<Rightarrow>
          (case coverage_rows (stats_total_patterns stats) (stats_files stats) of
             Inl e \<Rightarrow> Inl e
           | Inr rows \<Rightarrow>
               (case module_sections self of
                  Inl e \<Rightarrow> Inl e
                | Inr sections \<Rightarrow>
                    Inr ([Title, Blank, GeneratedAt, GeneratorName, Blank, Rule, Blank,
                          StatsHeading, Blank,
                          TotalPatterns (stats_total_patterns stats),
                          AverageCompletion (stats_average_completion stats),
                          ModuleCount (stats_modules stats),
                          Blank,
                          CoverageHeading, Blank, CoverageTableHead, CoverageTableRule]
                         @ rows
                         @ [Blank, Rule, Blank, ModulesHeading, Blank]
                         @ sections
                         @ legend))))"

section \<open>\<open>main\<close>\<close>

record Args =
  "output" :: string
  check_only :: bool
  verbose :: bool
  json :: bool

text \<open>What the process prints, one value for each \<open>print\<close> call.\<close>

datatype console =
  Printed message
| JsonDocument OverallStats "PatternStatus list"
| BannerAfterBlank
| Banner
| SummaryTitle
| SummaryTotal nat
| SummaryAverage rat
| SummaryModules nat
| EmptyLine
| CoverageLabel
| SummaryCoverage ustring string nat nat rat
| GeneratingReport
| ReportSaved string
| ReportSize
| CheckOnlyNotice

record MainResult =
  exit_code :: int
  stdout :: "console list"
  written :: "(string \<times> line list) option"

fun summary_rows :: "nat \<Rightarrow> (string \<times> nat) list \<Rightarrow> error + console list" where
  \<comment> \<open>the loop over \<open>sorted(stats['files'].items())\<close> of the console summary\<close>
  "summary_rows total_count [] = Inr []"
| "summary_rows total_count ((component, cnt) # rest) =
     (case coverage_percentage cnt total_count of
        Inl e \<Rightarrow> Inl e
      | Inr percentage \<Rightarrow>
          (case summary_rows total_count rest of
             Inl e \<Rightarrow> Inl e
           | Inr rows \<Rightarrow>
               Inr (SummaryCoverage (coverage_emoji percentage)
                      (title (replace CHR ''_'' CHR '' '' component)) cnt total_count percentage
                    # rows)))"

definition console_summary :: "CourseStructureScanner \<Rightarrow> error + console list" where
  \<comment> \<open>the statistics block of \<open>main\<close>, from \<open>stats = scanner.get_overall_stats()\<close> to the
      end of the coverage loop\<close>
  "console_summary scanner =
     (case get_overall_stats scanner of
        Inl e \<Rightarrow> Inl e
      | Inr stats \<Rightarrow>
          (case summary_rows (stats_total_patterns stats) (sort (stats_files stats)) of
             Inl e \<Rightarrow> Inl e
           | Inr rows \<Rightarrow>
               Inr ([BannerAfterBlank, SummaryTitle, Banner,
                     SummaryTotal (stats_total_patterns stats),
                     SummaryAverage (stats_average_completion stats),
                     SummaryModules (stats_modules stats),
                     EmptyLine,
                     CoverageLabel] @ rows)))"

definition main :: "Args \<Rightarrow> node \<Rightarrow> error + MainResult" where
  \<comment> \<open>\<open>main\<close> on parsed arguments and the tree under \<open>PROJECT_ROOT\<close>; an error is the
      uncaught exception that ends the process. Failures of the final file write are
      not modelled.\<close>
  "main args tree =
     (case scan (init_scanner tree) of
        Inl e \<Rightarrow> Inl e
      | Inr scanner \<Rightarrow>
          if json args then
            (case get_overall_stats scanner of
               Inl e \<Rightarrow> Inl e
             | Inr stats \<Rightarrow>
                 Inr \<lparr>exit_code = 0,
                      stdout = map Printed (printed scanner)
                               @ [JsonDocument stats (self_patterns scanner)],
                      written = None\<rparr>)
          else
            (case console_summary scanner of
               Inl e \<Rightarrow> Inl e
             | Inr summary \<Rightarrow>
                 if \<not> check_only args then
                   (case generate_markdown scanner of
                      Inl e \<Rightarrow> Inl e
                    | Inr markdown \<Rightarrow>
                        Inr \<lparr>exit_code = 0,
                             stdout = map Printed (printed scanner) @ summary
                                      @ [GeneratingReport, ReportSaved (output args), ReportSize],
                             written = Some (output args, markdown)\<rparr>)
                 else
                   Inr \<lparr>exit_code = 0,
                        stdout = map Printed (printed scanner) @ summary @ [CheckOnlyNotice],
                        written = None\<rparr>))"

section \<open>Reading the report\<close>

definition is_lesson_row :: "line \<Rightarrow> bool" where
  "is_lesson_row l = (case l of LessonRow n nm e t c cell \<Rightarrow> True | _ \<Rightarrow> False)"

definition lesson_rows :: "line list \<Rightarrow> line list" where
  \<comment> \<open>the rows of the lesson tables of a report, from top to bottom\<close>
  "lesson_rows report = filter is_lesson_row report"

definition table_patterns :: "CourseStructureScanner \<Rightarrow> PatternStatus list" where
  \<comment> \<open>the lessons in the order in which \<open>generate_markdown\<close> visits them: the modules of
      the dict by ascending key, the lessons of a module in the order of its list\<close>
  "table_patterns self =
     concat (map patterns
       (List.map_filter (map_of (self_modules self)) (sort (map fst (self_modules self)))))"

definition glyph_table :: "((PatternStatus \<Rightarrow> bool) \<times> ustring) list" where
  \<comment> \<open>the flags that the lesson table tests, in the order of its \<open>if\<close> statements, each
      with the glyph it appends\<close>
  "glyph_table =
     [(has_readme, [128214]),
      (has_security_analysis, [128274]),
      (has_security_poster, [128203]),
      (has_vulnerabilities, [9888, 65039]),
      (has_exploits, [128163]),
      (has_secure_alternatives, [9989]),
      (has_cpp23_comparison, [128640])]"

section \<open>The weights written out\<close>

definition flag_weight :: "bool \<Rightarrow> int \<Rightarrow> int" where
  "flag_weight flag weight = (if flag then weight else 0)"

definition weight_sum :: "PatternStatus \<Rightarrow> int" where
  \<comment> \<open>the sum of the weights of the true flags, flag by flag\<close>
  "weight_sum p =
     flag_weight (has_readme p) 10 + flag_weight (has_cmakelists p) 10
     + flag_weight (has_security_analysis p) 15 + flag_weight (has_security_poster p) 15
     + flag_weight (has_vulnerabilities p) 15 + flag_weight (has_exploits p) 10
     + flag_weight (has_secure_alternatives p) 15 + flag_weight (has_cpp23_comparison p) 10"

definition achievable_weights :: "int list" where
  "achievable_weights =
     [0, 5, 10, 15, 20, 25, 30, 35, 40, 45, 50, 55, 60, 65, 70, 75, 80, 85, 90, 95, 100]"

definition flags_le :: "PatternStatus \<Rightarrow> PatternStatus \<Rightarrow> bool" where
  \<comment> \<open>every flag that is true in \<open>p\<close> is true in \<open>q\<close>\<close>
  "flags_le p q \<longleftrightarrow>
     (has_readme p \<longrightarrow> has_readme q) \<and> (has_cmakelists p \<longrightarrow> has_cmakelists q)
     \<and> (has_security_analysis p \<longrightarrow> has_security_analysis q)
     \<and> (has_security_poster p \<longrightarrow> has_security_poster q)
     \<and> (has_vulnerabilities p \<longrightarrow> has_vulnerabilities q)
     \<and> (has_exploits p \<longrightarrow> has_exploits q)
     \<and> (has_secure_alternatives p \<longrightarrow> has_secure_alternatives q)
     \<and> (has_cpp23_comparison p \<longrightarrow> has_cpp23_comparison q)"

text \<open>The five status labels of \<open>get_status_text\<close>, from the highest bracket down.\<close>

definition label_full :: ustring where
  "label_full = [1055, 1054, 1051, 1053, 1054, 1057, 1058, 1068, 1070, 32,
                 1056, 1045, 1040, 1051, 1048, 1047, 1054, 1042, 1040, 1053]"

definition label_practically :: ustring where
  "label_practically = [1055, 1056, 1040, 1050, 1058, 1048, 1063, 1045, 1057, 1050, 1048, 32,
                        1047, 1040, 1042, 1045, 1056, 1064, 1025, 1053]"

definition label_partial :: ustring where
  "label_partial = [1063, 1040, 1057, 1058, 1048, 1063, 1053, 1054, 32,
                    1056, 1045, 1040, 1051, 1048, 1047, 1054, 1042, 1040, 1053]"

definition label_basic :: ustring where
  "label_basic = [1041, 1040, 1047, 1054, 1042, 1040, 1071, 32,
                  1057, 1058, 1056, 1059, 1050, 1058, 1059, 1056, 1040]"

definition label_minimal :: ustring where
  "label_minimal = [1052, 1048, 1053, 1048, 1052, 1040, 1051, 1068, 1053, 1040, 1071, 32,
                    1057, 1058, 1056, 1059, 1050, 1058, 1059, 1056, 1040]"

section \<open>Example inputs\<close>

definition empty_tree_scanned :: CourseStructureScanner where
  \<comment> \<open>the scanner after \<open>scan\<close> on a project root without any module directory\<close>
  "empty_tree_scanned =
     \<lparr>project_root = Dir [], self_patterns = [], self_modules = [],
      printed = [ScanStarted] @ map (\<lambda>m. ModuleNotFound (fst m)) MODULES @ [ScanFinished 0]\<rparr>"

definition no_lesson_stats :: OverallStats where
  \<comment> \<open>the statistics of a scanner without any record and without any module\<close>
  "no_lesson_stats =
     \<lparr>stats_total_patterns = 0,
      stats_average_completion = 0,
      stats_files =
        [(''readme'', 0), (''cmakelists'', 0), (''security_analysis'', 0),
         (''security_poster'', 0), (''vulnerabilities'', 0), (''exploits'', 0),
         (''secure_alternatives'', 0), (''cpp23_comparison'', 0)],
      stats_modules = 0\<rparr>"

definition default_args :: Args where
  "default_args =
     \<lparr>output = ''COURSE_STRUCTURE_COMPLETE.md'', check_only = False, verbose = False,
      json = False\<rparr>"

definition json_args :: Args where
  "json_args =
     \<lparr>output = ''COURSE_STRUCTURE_COMPLETE.md'', check_only = False, verbose = False,
      json = True\<rparr>"

definition non_numeric_tree :: node where
  "non_numeric_tree = Dir [(''01-basics'', Dir [(''lesson_one_intro_hello'', Dir [])])]"

definition bare_lesson :: "string \<times> node" where
  "bare_lesson = (''lesson_1_1_hello_world'', Dir [])"

definition example_tree :: node where
  "example_tree =
     Dir [(''README.md'', File),
          (''01-basics'',
           Dir [(''lesson_1_2_raii'', Dir [(''README.md'', File)]),
                (''lesson_1'', Dir [(''README.md'', File)]),
                (''lesson_1_1_hello_world'',
                 Dir [(''README.md'', File), (''CMakeLists.txt'', File)]),
                (''notes.txt'', File)])]"

definition basics_title :: ustring where
  "basics_title = [1054, 1089, 1085, 1086, 1074, 1099, 32, 67, 43, 43]"

definition hello_world_status :: PatternStatus where
  "hello_world_status =
     \<lparr>module_number = 1, module_name = basics_title, lesson_number = 1,
      lesson_name = ''Hello World'', pattern_name = ''hello_world'',
      directory = [''01-basics'', ''lesson_1_1_hello_world''],
      has_readme = True, has_cmakelists = True, has_security_analysis = False,
      has_security_poster = True, has_vulnerabilities = False, has_exploits = False,
      has_secure_alternatives = False, has_cpp23_comparison = True,
      main_cpp_files = [], other_files = []\<rparr>"

definition raii_status :: PatternStatus where
  "raii_status =
     \<lparr>module_number = 1, module_name = basics_title, lesson_number = 1,
      lesson_name = ''Raii'', pattern_name = ''raii'',
      directory = [''01-basics'', ''lesson_1_2_raii''],
      has_readme = True, has_cmakelists = False, has_security_analysis = False,
      has_security_poster = True, has_vulnerabilities = False, has_exploits = False,
      has_secure_alternatives = False, has_cpp23_comparison = True,
      main_cpp_files = [], other_files = []\<rparr>"

definition example_module :: ModuleStats where
  "example_module =
     \<lparr>ms_module_number = 1, ms_module_name = basics_title,
      patterns = [hello_world_status, raii_status]\<rparr>"

definition example_scanned :: CourseStructureScanner where
  "example_scanned =
     \<lparr>project_root = example_tree,
      self_patterns = [hello_world_status, raii_status],
      self_modules = [(1, example_module)],
      printed = [ScanStarted, ScanningModule 1 basics_title]
                @ map (\<lambda>m. ModuleNotFound (fst m)) (tl MODULES) @ [ScanFinished 2]\<rparr>"

definition bare_lesson_status :: PatternStatus where
  "bare_lesson_status =
     \<lparr>module_number = 1, module_name = basics_title, lesson_number = 1,
      lesson_name = ''Hello World'', pattern_name = ''hello_world'',
      directory = [''01-basics'', ''lesson_1_1_hello_world''],
      has_readme = False, has_cmakelists = False, has_security_analysis = False,
      has_security_poster = True, has_vulnerabilities = False, has_exploits = False,
      has_secure_alternatives = False, has_cpp23_comparison = True,
      main_cpp_files = [], other_files = []\<rparr>"

definition flags_only ::
  "bool \<Rightarrow> bool \<Rightarrow> bool \<Rightarrow> bool \<Rightarrow> bool \<Rightarrow> bool \<Rightarrow> bool \<Rightarrow> bool \<Rightarrow> PatternStatus" where
  \<comment> \<open>a record of the lesson \<open>01-basics/lesson_1_1_hello_world\<close> with the given flags, in
      the order of the fields\<close>
  "flags_only readme cmakelists analysis poster vulnerabilities exploits alternatives cpp23 =
     \<lparr>module_number = 1, module_name = basics_title, lesson_number = 1,
      lesson_name = ''Hello World'', pattern_name = ''hello_world'',
      directory = [''01-basics'', ''lesson_1_1_hello_world''],
      has_readme = readme, has_cmakelists = cmakelists, has_security_analysis = analysis,
      has_security_poster = poster, has_vulnerabilities = vulnerabilities,
      has_exploits = exploits, has_secure_alternatives = alternatives,
      has_cpp23_comparison = cpp23,
      main_cpp_files = [], other_files = []\<rparr>"

section \<open>Properties of a scanner state\<close>

text \<open>
  What holds of the scanner after every step of \<open>scan\<close>: each record comes from a
  directory name with at least three segments and has the two flags that the truth value
  of a generator sets; each module of the map has lessons, all of them among the
  scanner's records and carrying the module's ordinal.
\<close>

definition scanner_ok :: "CourseStructureScanner \<Rightarrow> bool" where
  "scanner_ok self \<longleftrightarrow>
     (\<forall>p \<in> set (self_patterns self).
        3 \<le> length (split CHR ''_'' (last (directory p)))
        \<and> has_security_poster p \<and> has_cpp23_comparison p)
     \<and> (\<forall>(k, m) \<in> set (self_modules self).
          patterns m \<noteq> [] \<and> set (patterns m) \<subseteq> set (self_patterns self)
          \<and> (\<forall>p \<in> set (patterns m). module_number p = k))"

section \<open>Completion percentage and status\<close>

lemma total_weight_100: "total_weight = 100"
  by (simp add: total_weight_def weights_def)

lemma achieved_weight_sum: "achieved_weight p = weight_sum p"
  by (simp add: achieved_weight_def weights_def getattr_def weight_sum_def flag_weight_def)

lemma weight_sum_achievable: "weight_sum p \<in> set achievable_weights"
  by (simp add: weight_sum_def flag_weight_def achievable_weights_def)

text \<open>
  The float that \<open>(a / 100) * 100\<close> evaluates to, for each sum of weights that a record can
  have: it is \<open>a\<close> itself except at 55, where the two roundings leave
  \<open>55.00000000000001\<close>.
\<close>

lemma percent_table:
  "list_all (\<lambda>a. float_mul_int (int_truediv a 100) 100
                    = (if a = 55 then 55 + 1 / 2 ^ 47 else of_int a)) achievable_weights"
  by code_simp

lemma completion_value:
  "completion_percentage p
     = (if weight_sum p = 55 then 55 + 1 / 2 ^ 47 else of_int (weight_sum p))"
  using percent_table weight_sum_achievable [of p]
  by (simp add: list_all_iff completion_percentage_def achieved_weight_sum total_weight_100)

lemma flag_weight_mono: "(a \<longrightarrow> b) \<Longrightarrow> 0 \<le> w \<Longrightarrow> flag_weight a w \<le> flag_weight b w"
  by (simp add: flag_weight_def)

lemma weight_sum_mono: "flags_le p q \<Longrightarrow> weight_sum p \<le> weight_sum q"
  unfolding weight_sum_def flags_le_def
  by (intro add_mono flag_weight_mono) simp_all

lemma weight_sum_bounds: "0 \<le> weight_sum p \<and> weight_sum p \<le> 100"
  using weight_sum_achievable [of p] by (auto simp: achievable_weights_def)

lemma weight_sum_100:
  "weight_sum p = 100 \<longleftrightarrow>
     has_readme p \<and> has_cmakelists p \<and> has_security_analysis p \<and> has_security_poster p
     \<and> has_vulnerabilities p \<and> has_exploits p \<and> has_secure_alternatives p
     \<and> has_cpp23_comparison p"
  by (simp add: weight_sum_def flag_weight_def)

lemma value_mono:
  assumes "a \<in> set achievable_weights" "b \<in> set achievable_weights" "a \<le> b"
  shows "(if a = 55 then 55 + 1 / 2 ^ 47 else (of_int a :: rat))
       \<le> (if b = 55 then 55 + 1 / 2 ^ 47 else of_int b)"
proof -
  have small: "(0::rat) < 1 / 2 ^ 47" "(1 / 2 ^ 47 :: rat) < 1" by simp_all
  consider "a = 55" "b = 55" | "a = 55" "b \<ge> 60" | "a \<noteq> 55" "b = 55" | "a \<noteq> 55" "b \<noteq> 55"
    using assms by (auto simp: achievable_weights_def)
  then show ?thesis
  proof cases
    case 1 then show ?thesis by simp
  next
    case 2
    then have "(60::rat) \<le> of_int b" by (metis of_int_le_iff of_int_numeral)
    with 2 small show ?thesis by simp
  next
    case 3
    then have "(of_int a :: rat) \<le> 55" using assms(3) by (metis of_int_le_iff of_int_numeral)
    with 3 small show ?thesis by simp
  next
    case 4 then show ?thesis using assms(3) by simp
  qed
qed

lemma weight_sum_flags_only:
  "weight_sum (flags_only a b c d e f g h)
     = flag_weight a 10 + flag_weight b 10 + flag_weight c 15 + flag_weight d 15
       + flag_weight e 15 + flag_weight f 10 + flag_weight g 15 + flag_weight h 10"
  by (simp add: weight_sum_def flags_only_def)

lemma flags_only_sel:
  "has_readme (flags_only a b c d e f g h) = a"
  "has_cmakelists (flags_only a b c d e f g h) = b"
  "has_security_analysis (flags_only a b c d e f g h) = c"
  "has_security_poster (flags_only a b c d e f g h) = d"
  "has_vulnerabilities (flags_only a b c d e f g h) = e"
  "has_exploits (flags_only a b c d e f g h) = f"
  "has_secure_alternatives (flags_only a b c d e f g h) = g"
  "has_cpp23_comparison (flags_only a b c d e f g h) = h"
  by (simp_all add: flags_only_def)

text \<open>
  C1. The completion percentage of a record is computed from the sum of the weights of
  its true flags (documentation 10, build descriptor 10, security analysis 15, security
  poster 15, vulnerability sample 15, exploit sample 10, secure alternative 15, modern
  comparison 10): the sum is divided by the total weight, which is 100, and the quotient
  is multiplied by 100, both in float arithmetic. A record with only the documentation
  and build-descriptor flags scores exactly 20.
\<close>

theorem completion_percentage_formula:
  "total_weight = 100
   \<and> achieved_weight p = weight_sum p
   \<and> completion_percentage p = float_mul_int (int_truediv (weight_sum p) 100) 100
   \<and> (has_readme p \<and> has_cmakelists p \<and> \<not> has_security_analysis p
        \<and> \<not> has_security_poster p \<and> \<not> has_vulnerabilities p \<and> \<not> has_exploits p
        \<and> \<not> has_secure_alternatives p \<and> \<not> has_cpp23_comparison p
      \<longrightarrow> completion_percentage p = 20)"
proof -
  have "completion_percentage p = 20"
    if "has_readme p \<and> has_cmakelists p \<and> \<not> has_security_analysis p
        \<and> \<not> has_security_poster p \<and> \<not> has_vulnerabilities p \<and> \<not> has_exploits p
        \<and> \<not> has_secure_alternatives p \<and> \<not> has_cpp23_comparison p"
  proof -
    from that have "weight_sum p = 20" by (simp add: weight_sum_def flag_weight_def)
    then show ?thesis by (simp add: completion_value)
  qed
  then show ?thesis
    by (simp add: total_weight_100 achieved_weight_sum completion_percentage_def)
qed

theorem completion_percentage_formula_witness:
  "has_readme (flags_only True True False False False False False False)
   \<and> has_cmakelists (flags_only True True False False False False False False)
   \<and> \<not> has_security_analysis (flags_only True True False False False False False False)
   \<and> \<not> has_security_poster (flags_only True True False False False False False False)
   \<and> \<not> has_vulnerabilities (flags_only True True False False False False False False)
   \<and> \<not> has_exploits (flags_only True True False False False False False False)
   \<and> \<not> has_secure_alternatives (flags_only True True False False False False False False)
   \<and> \<not> has_cpp23_comparison (flags_only True True False False False False False False)
   \<and> completion_percentage (flags_only True True False False False False False False) = 20"
proof -
  let ?p = "flags_only True True False False False False False False"
  have flags: "has_readme ?p \<and> has_cmakelists ?p \<and> \<not> has_security_analysis ?p
        \<and> \<not> has_security_poster ?p \<and> \<not> has_vulnerabilities ?p \<and> \<not> has_exploits ?p
        \<and> \<not> has_secure_alternatives ?p \<and> \<not> has_cpp23_comparison ?p"
    by (simp add: flags_only_sel)
  with completion_percentage_formula [of ?p] have "completion_percentage ?p = 20" by blast
  with flags show ?thesis by blast
qed

text \<open>
  C4. The status label and the status symbol are functions of the completion percentage
  alone. Each of the five labels and of the five symbols is returned on exactly one
  bracket: from 90, from 70 to below 90, from 50 to below 70, from 30 to below 50, and
  below 30; the brackets do not overlap and cover every value. A record whose weights sum
  to 30, 50, 70 or 90 is in the bracket that starts there.
\<close>

theorem status_brackets:
  "get_status_text p = status_text_of (completion_percentage p)
   \<and> get_status_emoji p = status_emoji_of (completion_percentage p)
   \<and> (status_text_of c = label_full \<longleftrightarrow> 90 \<le> c)
   \<and> (status_text_of c = label_practically \<longleftrightarrow> 70 \<le> c \<and> c < 90)
   \<and> (status_text_of c = label_partial \<longleftrightarrow> 50 \<le> c \<and> c < 70)
   \<and> (status_text_of c = label_basic \<longleftrightarrow> 30 \<le> c \<and> c < 50)
   \<and> (status_text_of c = label_minimal \<longleftrightarrow> c < 30)
   \<and> (status_emoji_of c = [9989] \<longleftrightarrow> 90 \<le> c)
   \<and> (status_emoji_of c = [128994] \<longleftrightarrow> 70 \<le> c \<and> c < 90)
   \<and> (status_emoji_of c = [128993] \<longleftrightarrow> 50 \<le> c \<and> c < 70)
   \<and> (status_emoji_of c = [128992] \<longleftrightarrow> 30 \<le> c \<and> c < 50)
   \<and> (status_emoji_of c = [128308] \<longleftrightarrow> c < 30)
   \<and> (weight_sum p = 30 \<longrightarrow> get_status_text p = label_basic \<and> get_status_emoji p = [128992])
   \<and> (weight_sum p = 50 \<longrightarrow> get_status_text p = label_partial \<and> get_status_emoji p = [128993])
   \<and> (weight_sum p = 70 \<longrightarrow> get_status_text p = label_practically \<and> get_status_emoji p = [128994])
   \<and> (weight_sum p = 90 \<longrightarrow> get_status_text p = label_full \<and> get_status_emoji p = [9989])"
proof -
  have labels: "(status_text_of c = label_full \<longleftrightarrow> 90 \<le> c)
   \<and> (status_text_of c = label_practically \<longleftrightarrow> 70 \<le> c \<and> c < 90)
   \<and> (status_text_of c = label_partial \<longleftrightarrow> 50 \<le> c \<and> c < 70)
   \<and> (status_text_of c = label_basic \<longleftrightarrow> 30 \<le> c \<and> c < 50)
   \<and> (status_text_of c = label_minimal \<longleftrightarrow> c < 30)"
    by (simp add: status_text_of_def label_full_def label_practically_def label_partial_def
        label_basic_def label_minimal_def)
  have emoji: "(status_emoji_of c = [9989] \<longleftrightarrow> 90 \<le> c)
   \<and> (status_emoji_of c = [128994] \<longleftrightarrow> 70 \<le> c \<and> c < 90)
   \<and> (status_emoji_of c = [128993] \<longleftrightarrow> 50 \<le> c \<and> c < 70)
   \<and> (status_emoji_of c = [128992] \<longleftrightarrow> 30 \<le> c \<and> c < 50)
   \<and> (status_emoji_of c = [128308] \<longleftrightarrow> c < 30)"
    by (simp add: status_emoji_of_def)
  have boundary:
    "(weight_sum p = 30 \<longrightarrow> get_status_text p = label_basic \<and> get_status_emoji p = [128992])
   \<and> (weight_sum p = 50 \<longrightarrow> get_status_text p = label_partial \<and> get_status_emoji p = [128993])
   \<and> (weight_sum p = 70 \<longrightarrow> get_status_text p = label_practically \<and> get_status_emoji p = [128994])
   \<and> (weight_sum p = 90 \<longrightarrow> get_status_text p = label_full \<and> get_status_emoji p = [9989])"
    by (simp add: get_status_text_def get_status_emoji_def completion_value
        status_text_of_def status_emoji_of_def label_full_def label_practically_def
        label_partial_def label_basic_def)
  from labels emoji boundary show ?thesis
    by (simp add: get_status_text_def get_status_emoji_def)
qed

theorem status_brackets_witness:
  "(90::rat) \<le> 90 \<and> status_text_of 90 = label_full \<and> status_emoji_of 90 = [9989]
   \<and> (70::rat) \<le> 70 \<and> (70::rat) < 90
   \<and> status_text_of 70 = label_practically \<and> status_emoji_of 70 = [128994]
   \<and> (50::rat) \<le> 50 \<and> (50::rat) < 70
   \<and> status_text_of 50 = label_partial \<and> status_emoji_of 50 = [128993]
   \<and> (30::rat) \<le> 30 \<and> (30::rat) < 50
   \<and> status_text_of 30 = label_basic \<and> status_emoji_of 30 = [128992]
   \<and> (29::rat) < 30 \<and> status_text_of 29 = label_minimal \<and> status_emoji_of 29 = [128308]
   \<and> weight_sum (flags_only True True True False True False False False) = 50
   \<and> get_status_text (flags_only True True True False True False False False) = label_partial
   \<and> get_status_emoji (flags_only True True True False True False False False) = [128993]
   \<and> weight_sum (flags_only False False True True False False False False) = 30
   \<and> get_status_text (flags_only False False True True False False False False) = label_basic
   \<and> get_status_emoji (flags_only False False True True False False False False) = [128992]
   \<and> weight_sum (flags_only True False True True True False True False) = 70
   \<and> get_status_text (flags_only True False True True True False True False) = label_practically
   \<and> get_status_emoji (flags_only True False True True True False True False) = [128994]
   \<and> weight_sum (flags_only True False True True True True True True) = 90
   \<and> get_status_text (flags_only True False True True True True True True) = label_full
   \<and> get_status_emoji (flags_only True False True True True True True True) = [9989]"
proof -
  let ?p50 = "flags_only True True True False True False False False"
  let ?p30 = "flags_only False False True True False False False False"
  let ?p70 = "flags_only True False True True True False True False"
  let ?p90 = "flags_only True False True True True True True True"
  have w: "weight_sum ?p50 = 50" "weight_sum ?p30 = 30" "weight_sum ?p70 = 70"
    "weight_sum ?p90 = 90"
    by (simp_all add: weight_sum_flags_only flag_weight_def)
  have c90: "status_text_of 90 = label_full \<and> status_emoji_of 90 = [9989]"
    using status_brackets [of ?p90 90] by simp
  have c70: "status_text_of 70 = label_practically \<and> status_emoji_of 70 = [128994]"
    using status_brackets [of ?p90 70] by simp
  have c50: "status_text_of 50 = label_partial \<and> status_emoji_of 50 = [128993]"
    using status_brackets [of ?p90 50] by simp
  have c30: "status_text_of 30 = label_basic \<and> status_emoji_of 30 = [128992]"
    using status_brackets [of ?p90 30] by simp
  have c29: "status_text_of 29 = label_minimal \<and> status_emoji_of 29 = [128308]"
    using status_brackets [of ?p90 29] by simp
  have r50: "get_status_text ?p50 = label_partial \<and> get_status_emoji ?p50 = [128993]"
    using status_brackets [of ?p50 0] w(1) by blast
  have r30: "get_status_text ?p30 = label_basic \<and> get_status_emoji ?p30 = [128992]"
    using status_brackets [of ?p30 0] w(2) by blast
  have r70: "get_status_text ?p70 = label_practically \<and> get_status_emoji ?p70 = [128994]"
    using status_brackets [of ?p70 0] w(3) by blast
  have r90: "get_status_text ?p90 = label_full \<and> get_status_emoji ?p90 = [9989]"
    using status_brackets [of ?p90 0] w(4) by blast
  from w c90 c70 c50 c30 c29 r50 r30 r70 r90 show ?thesis by simp
qed

text \<open>
  C5. Whatever the eight flags are, the completion percentage lies between 0 and 100; it
  does not decrease when flags are turned from false to true; and it is 100 exactly when
  all eight flags are true.
\<close>

theorem completion_percentage_range_monotone:
  "0 \<le> completion_percentage p \<and> completion_percentage p \<le> 100
   \<and> (flags_le p q \<longrightarrow> completion_percentage p \<le> completion_percentage q)
   \<and> (completion_percentage p = 100 \<longleftrightarrow>
        has_readme p \<and> has_cmakelists p \<and> has_security_analysis p \<and> has_security_poster p
        \<and> has_vulnerabilities p \<and> has_exploits p \<and> has_secure_alternatives p
        \<and> has_cpp23_comparison p)"
proof -
  have range: "0 \<le> completion_percentage p \<and> completion_percentage p \<le> 100"
    using weight_sum_bounds [of p]
    by (auto simp: completion_value)
  have mono: "completion_percentage p \<le> completion_percentage q" if "flags_le p q"
    using value_mono [OF weight_sum_achievable [of p] weight_sum_achievable [of q]
        weight_sum_mono [OF that]]
    by (simp only: completion_value)
  have "completion_percentage p = 100 \<longleftrightarrow> weight_sum p = 100"
    by (simp add: completion_value)
  with range mono show ?thesis by (simp only: weight_sum_100) blast
qed

theorem completion_percentage_range_monotone_witness:
  "flags_le (flags_only True True False False False False False False)
            (flags_only True True False False False True False False)
   \<and> completion_percentage (flags_only True True False False False False False False) = 20
   \<and> completion_percentage (flags_only True True False False False True False False) = 30
   \<and> completion_percentage (flags_only True True False False False False False False)
       \<le> completion_percentage (flags_only True True False False False True False False)
   \<and> completion_percentage (flags_only True True True True True True True True) = 100
   \<and> completion_percentage (flags_only True True True True True True True False) \<noteq> 100"
proof -
  have le: "flags_le (flags_only True True False False False False False False)
            (flags_only True True False False False True False False)"
    by (simp add: flags_le_def flags_only_sel)
  have v: "completion_percentage (flags_only True True False False False False False False) = 20"
    "completion_percentage (flags_only True True False False False True False False) = 30"
    by (simp_all add: completion_value weight_sum_flags_only flag_weight_def)
  have m: "completion_percentage (flags_only True True False False False False False False)
       \<le> completion_percentage (flags_only True True False False False True False False)"
    using completion_percentage_range_monotone
      [of "flags_only True True False False False False False False"
          "flags_only True True False False False True False False"] le
    by blast
  have full: "completion_percentage (flags_only True True True True True True True True) = 100"
    using completion_percentage_range_monotone
      [of "flags_only True True True True True True True True"]
    by (simp add: flags_only_sel)
  have not_full:
    "completion_percentage (flags_only True True True True True True True False) \<noteq> 100"
    using completion_percentage_range_monotone
      [of "flags_only True True True True True True True False"]
    by (simp add: flags_only_sel)
  from le v m full not_full show ?thesis by blast
qed

section \<open>Division by zero in the coverage loops\<close>

lemma coverage_percentage_zero: "coverage_percentage cnt 0 = Inl ZeroDivisionError"
  by (simp add: coverage_percentage_def py_truediv_def)

lemma coverage_rows_zero: "xs \<noteq> [] \<Longrightarrow> coverage_rows 0 xs = Inl ZeroDivisionError"
  by (cases xs) (auto simp: coverage_percentage_zero)

lemma summary_rows_zero: "xs \<noteq> [] \<Longrightarrow> summary_rows 0 xs = Inl ZeroDivisionError"
  by (cases xs) (auto simp: coverage_percentage_zero)

section \<open>Lesson inspection and the scan loops\<close>

lemma scan_lesson_short:
  "length (split CHR ''_'' (fst lesson)) < 3 \<Longrightarrow> scan_lesson num nm mdir lesson = Inr None"
  by (simp add: scan_lesson_def Let_def)

lemma scan_lesson_Some:
  assumes "scan_lesson num nm mdir lesson = Inr (Some p)"
  shows "3 \<le> length (split CHR ''_'' (fst lesson))"
    and "directory p = [mdir, fst lesson]"
    and "module_number p = num"
    and "has_security_poster p" and "has_cpp23_comparison p"
    and "pattern_name p =
           (if length (split CHR ''_'' (fst lesson)) > 3
            then join ''_'' (drop 3 (split CHR ''_'' (fst lesson)))
            else split CHR ''_'' (fst lesson) ! 2)"
  using assms
  by (auto simp: scan_lesson_def Let_def generator_truthy_def split: if_splits sum.splits)

lemma scan_lesson_error:
  assumes "3 \<le> length (split CHR ''_'' (fst lesson))"
    and "py_int (split CHR ''_'' (fst lesson) ! 1) = Inl e"
  shows "scan_lesson num nm mdir lesson = Inl e"
  using assms by (simp add: scan_lesson_def Let_def)

lemma scan_lesson_total:
  assumes "3 \<le> length (split CHR ''_'' (fst lesson))"
    and "py_int (split CHR ''_'' (fst lesson) ! 1) = Inr n"
  shows "\<exists>p. scan_lesson num nm mdir lesson = Inr (Some p) \<and> lesson_number p = n"
  using assms by (simp add: scan_lesson_def Let_def)

lemma scan_lessons_result:
  "scan_lessons num nm mdir ls st = Inr st' \<Longrightarrow>
   \<exists>new. self_patterns (fst st') = self_patterns (fst st) @ new
       \<and> patterns (snd st') = patterns (snd st) @ new
       \<and> self_modules (fst st') = self_modules (fst st)
       \<and> printed (fst st') = printed (fst st)
       \<and> project_root (fst st') = project_root (fst st)
       \<and> (\<forall>p \<in> set new. \<exists>l \<in> set ls. is_dir (snd l) \<and> scan_lesson num nm mdir l = Inr (Some p))"
proof (induction ls arbitrary: st)
  case Nil
  then show ?case by simp
next
  case (Cons l ls)
  show ?case
  proof (cases "is_dir (snd l)")
    case False
    with Cons.prems have "scan_lessons num nm mdir ls st = Inr st'" by simp
    from Cons.IH [OF this] show ?thesis by auto
  next
    case True
    show ?thesis
    proof (cases "scan_lesson num nm mdir l")
      case (Inl e)
      with True Cons.prems show ?thesis by simp
    next
      case (Inr r)
      show ?thesis
      proof (cases r)
        case None
        with Inr True Cons.prems have "scan_lessons num nm mdir ls st = Inr st'" by simp
        from Cons.IH [OF this] show ?thesis by auto
      next
        case (Some p)
        let ?st = "((fst st)\<lparr>self_patterns := self_patterns (fst st) @ [p]\<rparr>,
                    (snd st)\<lparr>patterns := patterns (snd st) @ [p]\<rparr>)"
        from Some Inr True Cons.prems have "scan_lessons num nm mdir ls ?st = Inr st'" by simp
        from Cons.IH [OF this] obtain new where new:
          "self_patterns (fst st') = (self_patterns (fst st) @ [p]) @ new"
          "patterns (snd st') = (patterns (snd st) @ [p]) @ new"
          "self_modules (fst st') = self_modules (fst st)"
          "printed (fst st') = printed (fst st)"
          "project_root (fst st') = project_root (fst st)"
          "\<forall>q \<in> set new. \<exists>l \<in> set ls. is_dir (snd l) \<and> scan_lesson num nm mdir l = Inr (Some q)"
          by auto
        have "\<forall>q \<in> set (p # new). \<exists>l' \<in> set (l # ls). is_dir (snd l') \<and> scan_lesson num nm mdir l' = Inr (Some q)"
          using new(6) True Inr Some by auto
        with new show ?thesis by (intro exI [of _ "p # new"]) simp
      qed
    qed
  qed
qed

lemma scanner_ok_init: "scanner_ok (init_scanner tree)"
  by (simp add: scanner_ok_def init_scanner_def)

lemma set_update_subset: "set (AList.update k v al) \<subseteq> insert (k, v) (set al)"
  by (induction al) auto

lemma scan_modules_ok:
  "scan_modules mods self = Inr self' \<Longrightarrow> scanner_ok self \<Longrightarrow> scanner_ok self'"
proof (induction mods arbitrary: self)
  case Nil
  then show ?case by simp
next
  case (Cons m mods)
  obtain mdir num nm where m: "m = (mdir, num, nm)" by (cases m) auto
  show ?case
  proof (cases "map_of (entries (project_root self)) mdir")
    case None
    let ?s = "self\<lparr>printed := printed self @ [ModuleNotFound mdir]\<rparr>"
    from None Cons.prems(1) m have "scan_modules mods ?s = Inr self'" by simp
    moreover have "scanner_ok ?s" using Cons.prems(2) by (simp add: scanner_ok_def)
    ultimately show ?thesis by (rule Cons.IH)
  next
    case (Some module_path)
    let ?s0 = "self\<lparr>printed := printed self @ [ScanningModule num nm]\<rparr>"
    let ?m0 = "\<lparr>ms_module_number = num, ms_module_name = nm, patterns = []\<rparr>"
    obtain s1 m1 where r: "scan_lessons num nm mdir (lesson_dirs module_path) (?s0, ?m0) = Inr (s1, m1)"
      using Some Cons.prems(1) m by (auto split: sum.splits)
    let ?s2 = "if patterns m1 \<noteq> [] then s1\<lparr>self_modules := AList.update num m1 (self_modules s1)\<rparr> else s1"
    have next_call: "scan_modules mods ?s2 = Inr self'"
      using Some Cons.prems(1) m r by simp
    from scan_lessons_result [OF r] obtain new where new:
      "self_patterns s1 = self_patterns self @ new"
      "patterns m1 = new"
      "self_modules s1 = self_modules self"
      "\<forall>p \<in> set new. \<exists>l \<in> set (lesson_dirs module_path). is_dir (snd l) \<and> scan_lesson num nm mdir l = Inr (Some p)"
      by auto
    have newp: "3 \<le> length (split CHR ''_'' (last (directory p))) \<and> has_security_poster p
                \<and> has_cpp23_comparison p \<and> module_number p = num" if "p \<in> set new" for p
    proof -
      from new(4) that obtain l where "scan_lesson num nm mdir l = Inr (Some p)" by auto
      from scan_lesson_Some(1-5) [OF this] show ?thesis by simp
    qed
    have ok1: "scanner_ok s1"
      using Cons.prems(2) new(1,3) newp by (auto simp: scanner_ok_def)
    have "scanner_ok ?s2"
    proof (cases "patterns m1 \<noteq> []")
      case False
      with ok1 show ?thesis by simp
    next
      case True
      have "\<forall>(k, m) \<in> set (AList.update num m1 (self_modules s1)).
              patterns m \<noteq> [] \<and> set (patterns m) \<subseteq> set (self_patterns s1)
              \<and> (\<forall>p \<in> set (patterns m). module_number p = k)"
      proof (clarify)
        fix k m assume "(k, m) \<in> set (AList.update num m1 (self_modules s1))"
        then have "(k, m) = (num, m1) \<or> (k, m) \<in> set (self_modules s1)"
          using set_update_subset [of num m1 "self_modules s1"] by auto
        then show "patterns m \<noteq> [] \<and> set (patterns m) \<subseteq> set (self_patterns s1)
                   \<and> (\<forall>p \<in> set (patterns m). module_number p = k)"
        proof
          assume "(k, m) = (num, m1)"
          then show ?thesis using True new(1,2) newp by auto
        next
          assume "(k, m) \<in> set (self_modules s1)"
          then show ?thesis using ok1 by (auto simp: scanner_ok_def)
        qed
      qed
      with ok1 True show ?thesis by (simp add: scanner_ok_def)
    qed
    with next_call show ?thesis by (rule Cons.IH)
  qed
qed

lemma scan_ok: "scan (init_scanner tree) = Inr s \<Longrightarrow> scanner_ok s"
proof -
  assume a: "scan (init_scanner tree) = Inr s"
  then obtain s' where s': "scan_modules MODULES ((init_scanner tree)\<lparr>printed := printed (init_scanner tree) @ [ScanStarted]\<rparr>) = Inr s'"
    and s: "s = s'\<lparr>printed := printed s' @ [ScanFinished (length (self_patterns s'))]\<rparr>"
    by (auto simp: scan_def split: sum.splits)
  have "scanner_ok ((init_scanner tree)\<lparr>printed := printed (init_scanner tree) @ [ScanStarted]\<rparr>)"
    using scanner_ok_init [of tree] by (simp add: scanner_ok_def)
  from scan_modules_ok [OF s' this] show "scanner_ok s" using s by (simp add: scanner_ok_def)
qed


lemma scan_example_tree: "scan (init_scanner example_tree) = Inr example_scanned"
  by code_simp

text \<open>
  C2 says that the security-poster flag and the modern-comparison flag are true exactly
  when a file of the lesson directory matches one of their patterns. The code tests
  \<open>any(lesson_dir.glob(pattern) for pattern in patterns)\<close>: the items of \<open>any\<close> are the
  generator objects, which are true whatever they would yield. For a lesson directory
  without any file no pattern matches, yet both flags are true. The sibling checks
  (\<open>any(lesson_dir.glob('*_vulnerabilities.cpp'))\<close>) do look at the matches.
\<close>

theorem poster_and_comparison_flags_ignore_files:
  "glob (snd bare_lesson) ''*SECURITY_POSTER.md'' = []
   \<and> glob (snd bare_lesson) ''HELLO_WORLD_SECURITY_POSTER.md'' = []
   \<and> glob (snd bare_lesson) ''*_cpp23_comparison.cpp'' = []
   \<and> glob (snd bare_lesson) ''*_cpp23_*.cpp'' = []
   \<and> scan_lesson 1 basics_title ''01-basics'' bare_lesson = Inr (Some bare_lesson_status)
   \<and> has_security_poster bare_lesson_status
   \<and> has_cpp23_comparison bare_lesson_status"
  by code_simp

text \<open>
  C3 says that a lesson directory whose second segment is not an integer is skipped and
  the scan goes on. In the code \<open>int(parts[1])\<close> raises \<open>ValueError\<close>, nothing catches it,
  and the exception ends \<open>scan\<close> and \<open>main\<close>; only names with fewer than three segments
  return \<open>None\<close>.
\<close>

theorem non_numeric_ordinal_ends_the_run:
  "3 \<le> length (split CHR ''_'' ''lesson_one_intro_hello'')
   \<and> py_int (split CHR ''_'' ''lesson_one_intro_hello'' ! 1) = Inl ValueError
   \<and> scan_lesson 1 basics_title ''01-basics'' (''lesson_one_intro_hello'', Dir []) = Inl ValueError
   \<and> scan (init_scanner non_numeric_tree) = Inl ValueError
   \<and> main default_args non_numeric_tree = Inl ValueError"
  by code_simp

text \<open>
  C6. For a lesson directory whose name has fewer than three segments between
  underscores, \<open>_scan_lesson\<close> returns no record, the loop of \<open>scan\<close> goes on with the
  state unchanged (nothing is appended and nothing is printed), and no record of a
  finished scan comes from that directory.
\<close>

theorem short_name_yields_no_record:
  assumes "length (split CHR ''_'' (fst lesson)) < 3"
  shows "scan_lesson num nm mdir lesson = Inr None
       \<and> scan_lessons num nm mdir (lesson # rest) st = scan_lessons num nm mdir rest st
       \<and> (scan (init_scanner tree) = Inr s \<longrightarrow>
            (\<forall>p \<in> set (self_patterns s). last (directory p) \<noteq> fst lesson))"
proof -
  have a: "scan_lesson num nm mdir lesson = Inr None" using assms by (rule scan_lesson_short)
  then have b: "scan_lessons num nm mdir (lesson # rest) st = scan_lessons num nm mdir rest st"
    by simp
  have "\<forall>p \<in> set (self_patterns s). last (directory p) \<noteq> fst lesson"
    if "scan (init_scanner tree) = Inr s"
    using scan_ok [OF that] assms by (auto simp: scanner_ok_def)
  with a b show ?thesis by blast
qed

theorem short_name_yields_no_record_witness:
  "length (split CHR ''_'' (fst (''lesson_1'', Dir [(''README.md'', File)]))) < 3
   \<and> scan_lesson 1 basics_title ''01-basics'' (''lesson_1'', Dir [(''README.md'', File)]) = Inr None
   \<and> scan (init_scanner example_tree) = Inr example_scanned
   \<and> map (\<lambda>p. last (directory p)) (self_patterns example_scanned)
       = [''lesson_1_1_hello_world'', ''lesson_1_2_raii'']"
proof -
  have h: "length (split CHR ''_'' (fst (''lesson_1'', Dir [(''README.md'', File)]))) < 3"
    by simp
  have e: "map (\<lambda>p. last (directory p)) (self_patterns example_scanned)
       = [''lesson_1_1_hello_world'', ''lesson_1_2_raii'']"
    by (simp add: example_scanned_def hello_world_status_def raii_status_def)
  show ?thesis
    using short_name_yields_no_record [OF h, of 1 basics_title "''01-basics''" "[]" undefined example_tree example_scanned]
      h e scan_example_tree
    by simp
qed

lemma int_skips_only_c_whitespace:
  "py_int [CHR 0x1C, CHR ''5''] = Inl ValueError
   \<and> py_int [CHR ''5'', CHR 0x1F] = Inl ValueError
   \<and> py_int [CHR 0x09, CHR ''5'', CHR '' ''] = Inr 5
   \<and> py_int ''-12'' = Inr (- 12)
   \<and> py_int ''+7'' = Inr 7
   \<and> py_int ''one'' = Inl ValueError
   \<and> py_int [] = Inl ValueError"
  by code_simp

text \<open>
  C7 says that every name with four or more segments gives the pattern identifier that
  joins the segments from index 3 on. The identifier is computed on the line after
  \<open>int(parts[1])\<close>: for the name \<open>lesson_x_1_factory_method\<close>, which has five segments,
  \<open>int\<close> raises \<open>ValueError\<close> and no identifier is derived.
\<close>

theorem no_identifier_without_ordinal:
  "4 \<le> length (split CHR ''_'' ''lesson_x_1_factory_method'')
   \<and> join ''_'' (drop 3 (split CHR ''_'' ''lesson_x_1_factory_method'')) = ''factory_method''
   \<and> map_sum id (map_option pattern_name)
        (scan_lesson 3 [] ''03-creational'' (''lesson_x_1_factory_method'', Dir []))
       = Inl ValueError"
  by code_simp

text \<open>
  C7 for the names whose second segment \<open>int\<close> accepts: a name with four or more segments
  gives a record whose pattern identifier is the segments from index 3 on joined by
  underscores, and a name with exactly three segments gives a record whose pattern
  identifier is the third segment.
\<close>

theorem pattern_identifier:
  assumes "py_int (split CHR ''_'' (fst lesson) ! 1) = Inr n"
  shows "(4 \<le> length (split CHR ''_'' (fst lesson)) \<longrightarrow>
            map_sum id (map_option pattern_name) (scan_lesson num nm mdir lesson)
              = Inr (Some (join ''_'' (drop 3 (split CHR ''_'' (fst lesson))))))
       \<and> (length (split CHR ''_'' (fst lesson)) = 3 \<longrightarrow>
            map_sum id (map_option pattern_name) (scan_lesson num nm mdir lesson)
              = Inr (Some (split CHR ''_'' (fst lesson) ! 2)))"
  using assms by (simp add: scan_lesson_def Let_def)

theorem pattern_identifier_witness:
  "py_int (split CHR ''_'' (fst (''lesson_3_1_factory_method'', Dir [])) ! 1) = Inr 3
   \<and> 4 \<le> length (split CHR ''_'' (fst (''lesson_3_1_factory_method'', Dir [])))
   \<and> map_sum id (map_option pattern_name)
        (scan_lesson 3 [] ''03-creational'' (''lesson_3_1_factory_method'', Dir []))
       = Inr (Some ''factory_method'')
   \<and> py_int (split CHR ''_'' (fst (''lesson_2_intro'', Dir [])) ! 1) = Inr 2
   \<and> length (split CHR ''_'' (fst (''lesson_2_intro'', Dir []))) = 3
   \<and> map_sum id (map_option pattern_name)
        (scan_lesson 1 [] ''01-basics'' (''lesson_2_intro'', Dir []))
       = Inr (Some ''intro'')"
proof -
  have a: "py_int (split CHR ''_'' (fst (''lesson_3_1_factory_method'', Dir [])) ! 1) = Inr 3"
    by code_simp
  have b: "py_int (split CHR ''_'' (fst (''lesson_2_intro'', Dir [])) ! 1) = Inr 2"
    by code_simp
  show ?thesis
    using pattern_identifier [OF a, of 3 "[]" "''03-creational''"]
      pattern_identifier [OF b, of 1 "[]" "''01-basics''"] a b
    by simp
qed

section \<open>Modules and their mean\<close>




section \<open>The lesson tables of the report\<close>

lemma lesson_rows_append: "lesson_rows (xs @ ys) = lesson_rows xs @ lesson_rows ys"
  by (simp add: lesson_rows_def)

lemma lesson_rows_Nil: "lesson_rows [] = []"
  by (simp add: lesson_rows_def)

lemma lesson_rows_Cons:
  "lesson_rows (x # xs) = (if is_lesson_row x then x # lesson_rows xs else lesson_rows xs)"
  by (simp add: lesson_rows_def)

lemma lesson_rows_found: "lesson_rows (map Found xs) = []"
  by (induction xs) (simp_all add: lesson_rows_Nil lesson_rows_Cons is_lesson_row_def)

lemma lesson_rows_details: "lesson_rows (add_pattern_details p) = []"
  by (simp add: add_pattern_details_def lesson_rows_append lesson_rows_found lesson_rows_Nil
      lesson_rows_Cons is_lesson_row_def)

lemma lesson_rows_details_all: "lesson_rows (concat (map add_pattern_details ps)) = []"
  by (induction ps) (simp_all add: lesson_rows_append lesson_rows_details lesson_rows_Nil)

lemma lesson_rows_table: "lesson_rows (map lesson_row ps) = map lesson_row ps"
  by (induction ps)
     (simp_all add: lesson_rows_Nil lesson_rows_Cons is_lesson_row_def lesson_row_def)

lemma lesson_rows_legend: "lesson_rows legend = []"
  by (simp add: legend_def lesson_rows_Nil lesson_rows_Cons is_lesson_row_def)

lemma average_completion_returns: "\<exists>avg. average_completion m = Inr avg"
  by (simp add: average_completion_def float_div_int_def)

lemma module_section_rows:
  "\<exists>ls. module_section k m = Inr ls \<and> lesson_rows ls = map lesson_row (patterns m)"
proof -
  obtain avg where "average_completion m = Inr avg"
    using average_completion_returns [of m] by auto
  then show ?thesis
    by (simp add: module_section_def lesson_rows_append lesson_rows_table
        lesson_rows_details_all lesson_rows_Nil lesson_rows_Cons is_lesson_row_def)
qed

lemma module_sections_of_rows:
  "\<exists>ls. module_sections_of ms ks = Inr ls
      \<and> lesson_rows ls = map lesson_row (concat (map patterns (List.map_filter (map_of ms) ks)))"
proof (induction ks)
  case Nil
  show ?case by (simp add: lesson_rows_Nil List.map_filter_simps)
next
  case (Cons k ks)
  then obtain rest_lines where r: "module_sections_of ms ks = Inr rest_lines"
    "lesson_rows rest_lines
       = map lesson_row (concat (map patterns (List.map_filter (map_of ms) ks)))"
    by auto
  show ?case
  proof (cases "map_of ms k")
    case None
    with r show ?thesis by (simp add: List.map_filter_simps)
  next
    case (Some m)
    obtain ls where "module_section k m = Inr ls" "lesson_rows ls = map lesson_row (patterns m)"
      using module_section_rows [of k m] by auto
    with Some r show ?thesis by (simp add: List.map_filter_simps lesson_rows_append)
  qed
qed

lemma coverage_rows_returns:
  "total_count \<noteq> 0 \<Longrightarrow> \<exists>rows. coverage_rows total_count xs = Inr rows \<and> lesson_rows rows = []"
proof (induction xs)
  case Nil
  show ?case by (simp add: lesson_rows_Nil)
next
  case (Cons x xs)
  obtain component cnt where x: "x = (component, cnt)" by (cases x) auto
  from Cons obtain rows where "coverage_rows total_count xs = Inr rows" "lesson_rows rows = []"
    by auto
  with Cons.prems x show ?case
    by (simp add: coverage_percentage_def py_truediv_def lesson_rows_Cons is_lesson_row_def)
qed

lemma get_overall_stats_returns:
  "\<exists>stats. get_overall_stats self = Inr stats
         \<and> stats_total_patterns stats = length (self_patterns self)
         \<and> stats_files stats \<noteq> []"
  by (simp add: get_overall_stats_def Let_def float_div_int_def)

lemma generate_markdown_rows:
  assumes "self_patterns self \<noteq> []"
  shows "\<exists>report. generate_markdown self = Inr report
           \<and> lesson_rows report = map lesson_row (table_patterns self)"
proof -
  obtain stats where stats: "get_overall_stats self = Inr stats"
    "stats_total_patterns stats = length (self_patterns self)"
    using get_overall_stats_returns [of self] by auto
  with assms have "stats_total_patterns stats \<noteq> 0" by simp
  then obtain rows where rows:
    "coverage_rows (stats_total_patterns stats) (stats_files stats) = Inr rows"
    "lesson_rows rows = []"
    using coverage_rows_returns [of "stats_total_patterns stats" "stats_files stats"] by auto
  obtain sections where sections: "module_sections self = Inr sections"
    "lesson_rows sections = map lesson_row (table_patterns self)"
    using module_sections_of_rows [of "self_modules self" "sort (map fst (self_modules self))"]
    by (auto simp: module_sections_def table_patterns_def)
  from stats rows sections show ?thesis
    by (simp add: generate_markdown_def lesson_rows_append lesson_rows_legend lesson_rows_Nil
        lesson_rows_Cons is_lesson_row_def)
qed

lemma lesson_rows_report:
  assumes "generate_markdown self = Inr report"
  shows "lesson_rows report = map lesson_row (table_patterns self)"
proof (cases "self_patterns self = []")
  case True
  obtain stats where stats: "get_overall_stats self = Inr stats"
    "stats_total_patterns stats = length (self_patterns self)" "stats_files stats \<noteq> []"
    using get_overall_stats_returns [of self] by auto
  with True have "coverage_rows (stats_total_patterns stats) (stats_files stats)
                    = Inl ZeroDivisionError"
    by (simp add: coverage_rows_zero)
  with stats assms show ?thesis by (simp add: generate_markdown_def)
next
  case False
  from generate_markdown_rows [OF this] assms show ?thesis by auto
qed

lemma table_patterns_example:
  "table_patterns example_scanned = [hello_world_status, raii_status]"
  by (simp add: table_patterns_def example_scanned_def example_module_def
      List.map_filter_simps)

lemma example_rows:
  "lesson_row hello_world_status
     = LessonRow 1 ''Hello World'' [128992] label_basic 45 [128214, 32, 128203, 32, 128640]"
  "lesson_row raii_status
     = LessonRow 1 ''Raii'' [128992] label_basic 35 [128214, 32, 128203, 32, 128640]"
  by (simp_all add: lesson_row_def get_status_emoji_def get_status_text_def completion_value
      weight_sum_def flag_weight_def status_emoji_of_def status_text_of_def label_basic_def
      components_str_def components_def hello_world_status_def raii_status_def)

text \<open>
  C9 says that each of the eight presence flags, when true, contributes one glyph to the
  components cell, the glyphs being concatenated. The lesson table tests seven flags:
  there is no glyph for the build descriptor, and the glyphs are joined with a space
  between them. In the tree \<open>example_tree\<close> the lesson \<open>lesson_1_1_hello_world\<close> has a
  \<open>README.md\<close> and a \<open>CMakeLists.txt\<close>: the scan sets four flags of its record, and its
  row in the report has three glyphs, the same cell as the lesson next to it, which has no
  \<open>CMakeLists.txt\<close>.
\<close>

theorem build_descriptor_has_no_glyph:
  "scan (init_scanner example_tree) = Inr example_scanned
   \<and> table_patterns example_scanned = [hello_world_status, raii_status]
   \<and> filter (getattr hello_world_status) (map fst weights)
       = [''has_readme'', ''has_cmakelists'', ''has_security_poster'', ''has_cpp23_comparison'']
   \<and> filter (getattr raii_status) (map fst weights)
       = [''has_readme'', ''has_security_poster'', ''has_cpp23_comparison'']
   \<and> map_sum id lesson_rows (generate_markdown example_scanned)
       = Inr [LessonRow 1 ''Hello World'' [128992] label_basic 45
                [128214, 32, 128203, 32, 128640],
              LessonRow 1 ''Raii'' [128992] label_basic 35
                [128214, 32, 128203, 32, 128640]]"
proof -
  have flags: "filter (getattr hello_world_status) (map fst weights)
       = [''has_readme'', ''has_cmakelists'', ''has_security_poster'', ''has_cpp23_comparison'']"
    "filter (getattr raii_status) (map fst weights)
       = [''has_readme'', ''has_security_poster'', ''has_cpp23_comparison'']"
    by (simp_all add: weights_def getattr_def hello_world_status_def raii_status_def)
  have "self_patterns example_scanned \<noteq> []" by (simp add: example_scanned_def)
  from generate_markdown_rows [OF this] obtain report where
    "generate_markdown example_scanned = Inr report"
    "lesson_rows report = map lesson_row (table_patterns example_scanned)"
    by auto
  then have "map_sum id lesson_rows (generate_markdown example_scanned)
       = Inr [LessonRow 1 ''Hello World'' [128992] label_basic 45
                [128214, 32, 128203, 32, 128640],
              LessonRow 1 ''Raii'' [128992] label_basic 35
                [128214, 32, 128203, 32, 128640]]"
    by (simp add: table_patterns_example example_rows)
  with flags scan_example_tree table_patterns_example show ?thesis by simp
qed

text \<open>
  C9 as the code has it. The lesson rows of a report are, in the order of the report, the
  rows of the lessons of the modules by ascending module ordinal, and the components cell
  of a lesson's row holds the glyphs of the true flags among the seven flags
  documentation, security analysis, security poster, vulnerability sample, exploit sample,
  secure alternative and modern comparison, in this order and with one space between two
  glyphs; it is the dash when none of the seven is true. The build-descriptor flag has no
  glyph.
\<close>

theorem components_cell:
  assumes "generate_markdown self = Inr report"
  shows "lesson_rows report
       = map (\<lambda>p. LessonRow (lesson_number p) (lesson_name p) (get_status_emoji p)
                    (get_status_text p) (completion_percentage p)
                    (if has_readme p \<or> has_security_analysis p \<or> has_security_poster p
                        \<or> has_vulnerabilities p \<or> has_exploits p
                        \<or> has_secure_alternatives p \<or> has_cpp23_comparison p
                     then join [32] (map snd (filter (\<lambda>(flag, glyph). flag p) glyph_table))
                     else [8212]))
           (table_patterns self)"
proof -
  have "lesson_row p
      = LessonRow (lesson_number p) (lesson_name p) (get_status_emoji p)
          (get_status_text p) (completion_percentage p)
          (if has_readme p \<or> has_security_analysis p \<or> has_security_poster p
              \<or> has_vulnerabilities p \<or> has_exploits p
              \<or> has_secure_alternatives p \<or> has_cpp23_comparison p
           then join [32] (map snd (filter (\<lambda>(flag, glyph). flag p) glyph_table))
           else [8212])" for p
    by (simp add: lesson_row_def components_str_def components_def glyph_table_def)
  then have "lesson_row
      = (\<lambda>p. LessonRow (lesson_number p) (lesson_name p) (get_status_emoji p)
                (get_status_text p) (completion_percentage p)
                (if has_readme p \<or> has_security_analysis p \<or> has_security_poster p
                    \<or> has_vulnerabilities p \<or> has_exploits p
                    \<or> has_secure_alternatives p \<or> has_cpp23_comparison p
                 then join [32] (map snd (filter (\<lambda>(flag, glyph). flag p) glyph_table))
                 else [8212]))"
    by (rule ext)
  with lesson_rows_report [OF assms] show ?thesis by simp
qed

theorem components_cell_witness:
  "generate_markdown example_scanned = Inr (projr (generate_markdown example_scanned))
   \<and> table_patterns example_scanned = [hello_world_status, raii_status]
   \<and> lesson_rows (projr (generate_markdown example_scanned))
       = [LessonRow 1 ''Hello World'' (get_status_emoji hello_world_status)
            (get_status_text hello_world_status) (completion_percentage hello_world_status)
            [128214, 32, 128203, 32, 128640],
          LessonRow 1 ''Raii'' (get_status_emoji raii_status)
            (get_status_text raii_status) (completion_percentage raii_status)
            [128214, 32, 128203, 32, 128640]]"
proof -
  have "self_patterns example_scanned \<noteq> []" by (simp add: example_scanned_def)
  from generate_markdown_rows [OF this]
  have r: "generate_markdown example_scanned = Inr (projr (generate_markdown example_scanned))"
    by auto
  have "lesson_rows (projr (generate_markdown example_scanned))
       = [LessonRow 1 ''Hello World'' (get_status_emoji hello_world_status)
            (get_status_text hello_world_status) (completion_percentage hello_world_status)
            [128214, 32, 128203, 32, 128640],
          LessonRow 1 ''Raii'' (get_status_emoji raii_status)
            (get_status_text raii_status) (completion_percentage raii_status)
            [128214, 32, 128203, 32, 128640]]"
    using components_cell [OF r]
    by (simp add: table_patterns_example glyph_table_def)
       (simp add: hello_world_status_def raii_status_def)
  with r table_patterns_example show ?thesis by simp
qed

section \<open>Division by zero on an empty scan\<close>

lemma no_patterns_no_modules:
  assumes "scanner_ok self" and "self_patterns self = []"
  shows "self_modules self = []"
proof (cases "self_modules self")
  case Nil
  then show ?thesis .
next
  case (Cons km rest)
  obtain k m where "km = (k, m)" by (cases km) auto
  with Cons have "(k, m) \<in> set (self_modules self)" by simp
  with assms(1) have "patterns m \<noteq> []" "set (patterns m) \<subseteq> set (self_patterns self)"
    by (auto simp: scanner_ok_def)
  with assms(2) show ?thesis by simp
qed

lemma get_overall_stats_no_lesson:
  "self_patterns self = [] \<Longrightarrow> self_modules self = [] \<Longrightarrow>
   get_overall_stats self = Inr no_lesson_stats"
  by (simp add: get_overall_stats_def no_lesson_stats_def count_where_def)

lemma scan_empty_tree: "scan (init_scanner (Dir [])) = Inr empty_tree_scanned"
  by (simp add: scan_def init_scanner_def MODULES_def empty_tree_scanned_def)

text \<open>
  C10. When a scan finds no lesson, \<open>get_overall_stats\<close> returns: it tests the number of
  records before it divides and reports the mean 0, where the division itself would
  raise. The coverage percentage divides each count by the total 0 without such a test:
  the console summary and the narrative report both raise \<open>ZeroDivisionError\<close>, and so does
  \<open>main\<close>, unless it runs in JSON mode, where it prints the statistics and returns 0.
\<close>

theorem zero_lessons_division_by_zero:
  assumes "scan (init_scanner tree) = Inr scanner" and "self_patterns scanner = []"
  shows "get_overall_stats scanner = Inr no_lesson_stats
       \<and> stats_average_completion no_lesson_stats = 0
       \<and> float_div_int (float_sum (map completion_percentage (self_patterns scanner)))
            (int (length (self_patterns scanner))) = Inl ZeroDivisionError
       \<and> console_summary scanner = Inl ZeroDivisionError
       \<and> generate_markdown scanner = Inl ZeroDivisionError
       \<and> (\<not> json args \<longrightarrow> main args tree = Inl ZeroDivisionError)
       \<and> (json args \<longrightarrow>
            main args tree
              = Inr \<lparr>exit_code = 0,
                     stdout = map Printed (printed scanner) @ [JsonDocument no_lesson_stats []],
                     written = None\<rparr>)"
proof -
  have "self_modules scanner = []"
    using scan_ok [OF assms(1)] assms(2) by (rule no_patterns_no_modules)
  with assms(2) have stats: "get_overall_stats scanner = Inr no_lesson_stats"
    by (rule get_overall_stats_no_lesson)
  have avg: "stats_average_completion no_lesson_stats = 0"
    by (simp add: no_lesson_stats_def)
  have total: "stats_total_patterns no_lesson_stats = 0"
    and files: "stats_files no_lesson_stats \<noteq> []" "sort (stats_files no_lesson_stats) \<noteq> []"
    by (simp_all add: no_lesson_stats_def)
  have unguarded:
    "float_div_int (float_sum (map completion_percentage (self_patterns scanner)))
       (int (length (self_patterns scanner))) = Inl ZeroDivisionError"
    using assms(2) by (simp add: float_div_int_def)
  have summary: "console_summary scanner = Inl ZeroDivisionError"
    using stats total files(2) by (simp add: console_summary_def summary_rows_zero)
  have report: "generate_markdown scanner = Inl ZeroDivisionError"
    using stats total files(1) by (simp add: generate_markdown_def coverage_rows_zero)
  have plain: "\<not> json args \<Longrightarrow> main args tree = Inl ZeroDivisionError"
    using assms(1) summary by (simp add: main_def)
  have as_json: "json args \<Longrightarrow>
      main args tree
        = Inr \<lparr>exit_code = 0,
               stdout = map Printed (printed scanner) @ [JsonDocument no_lesson_stats []],
               written = None\<rparr>"
    using assms stats by (simp add: main_def)
  from stats avg unguarded summary report plain as_json show ?thesis by blast
qed

theorem zero_lessons_division_by_zero_witness:
  "scan (init_scanner (Dir [])) = Inr empty_tree_scanned
   \<and> self_patterns empty_tree_scanned = []
   \<and> get_overall_stats empty_tree_scanned = Inr no_lesson_stats
   \<and> stats_average_completion no_lesson_stats = 0
   \<and> console_summary empty_tree_scanned = Inl ZeroDivisionError
   \<and> generate_markdown empty_tree_scanned = Inl ZeroDivisionError
   \<and> \<not> json default_args
   \<and> main default_args (Dir []) = Inl ZeroDivisionError
   \<and> json json_args
   \<and> main json_args (Dir [])
       = Inr \<lparr>exit_code = 0,
              stdout = map Printed (printed empty_tree_scanned)
                       @ [JsonDocument no_lesson_stats []],
              written = None\<rparr>"
proof -
  have p: "self_patterns empty_tree_scanned = []" by (simp add: empty_tree_scanned_def)
  have j: "\<not> json default_args" "json json_args"
    by (simp_all add: default_args_def json_args_def)
  from zero_lessons_division_by_zero [OF scan_empty_tree p, of default_args] j(1)
  have a: "get_overall_stats empty_tree_scanned = Inr no_lesson_stats
       \<and> stats_average_completion no_lesson_stats = 0
       \<and> console_summary empty_tree_scanned = Inl ZeroDivisionError
       \<and> generate_markdown empty_tree_scanned = Inl ZeroDivisionError
       \<and> main default_args (Dir []) = Inl ZeroDivisionError"
    by blast
  from zero_lessons_division_by_zero [OF scan_empty_tree p, of json_args] j(2)
  have b: "main json_args (Dir [])
       = Inr \<lparr>exit_code = 0,
              stdout = map Printed (printed empty_tree_scanned)
                       @ [JsonDocument no_lesson_stats []],
              written = None\<rparr>"
    by blast
  from a b p j scan_empty_tree show ?thesis by blast
qed

end
